theory Spec2Isabelle
  imports Complex_Main "HOL-Library.Char_ord" "HOL-Library.List_Lexorder"
    "HOL-Library.Product_Lexorder" "HOL-Library.Log_Nat" "HOL-Library.AList"
begin

section \<open>Text utilities\<close>

text \<open>
  Python strings are modelled as \<^typ>\<open>string\<close>, read as sequences of ASCII code points.
  Case conversion, whitespace and the character classes of the \<open>re\<close> module are written
  out for the ASCII range; characters from 128 on are kept as they are and belong to no class.
\<close>

definition ord :: "char \<Rightarrow> nat" where
  "ord c = of_char c"

definition lower_chr :: "char \<Rightarrow> char" where
  "lower_chr c = (if 65 \<le> ord c \<and> ord c \<le> 90 then char_of (ord c + 32) else c)"

definition upper_chr :: "char \<Rightarrow> char" where
  "upper_chr c = (if 97 \<le> ord c \<and> ord c \<le> 122 then char_of (ord c - 32) else c)"

definition lower :: "string \<Rightarrow> string" where
  "lower s = map lower_chr s"

definition upper :: "string \<Rightarrow> string" where
  "upper s = map upper_chr s"

text \<open>\<open>str.isspace\<close> and the class \<open>\s\<close> on ASCII: TAB, LF, VT, FF, CR, FS, GS, RS, US, space.\<close>

definition is_space :: "char \<Rightarrow> bool" where
  "is_space c = ((9 \<le> ord c \<and> ord c \<le> 13) \<or> (28 \<le> ord c \<and> ord c \<le> 32))"

definition is_digit :: "char \<Rightarrow> bool" where
  "is_digit c = (48 \<le> ord c \<and> ord c \<le> 57)"

definition is_alpha :: "char \<Rightarrow> bool" where
  "is_alpha c = ((65 \<le> ord c \<and> ord c \<le> 90) \<or> (97 \<le> ord c \<and> ord c \<le> 122))"

text \<open>The class \<open>\w\<close>: letters, digits and the underscore.\<close>

definition is_word :: "char \<Rightarrow> bool" where
  "is_word c = (is_alpha c \<or> is_digit c \<or> ord c = 95)"

definition strip :: "string \<Rightarrow> string" where
  "strip s = rev (dropWhile is_space (rev (dropWhile is_space s)))"

fun starts_with :: "string \<Rightarrow> string \<Rightarrow> bool" where
  "starts_with s [] = True"
| "starts_with [] (y # ys) = False"
| "starts_with (x # xs) (y # ys) = (x = y \<and> starts_with xs ys)"

text \<open>\<open>contains s sub\<close> is Python's \<open>sub in s\<close>.\<close>

fun contains :: "string \<Rightarrow> string \<Rightarrow> bool" where
  "contains [] sub = (sub = [])"
| "contains (x # xs) sub = (starts_with (x # xs) sub \<or> contains xs sub)"

text \<open>\<open>int(s)\<close> on a string of decimal digits.\<close>

definition digit_val :: "char \<Rightarrow> int" where
  "digit_val c = int (ord c) - 48"

definition int_of_digits :: "string \<Rightarrow> int" where
  "int_of_digits s = foldl (\<lambda>acc c. 10 * acc + digit_val c) 0 s"

section \<open>Regular expressions of the \<open>re\<close> module\<close>

text \<open>
  The patterns of the program use literals, character classes, alternation, greedy
  optional parts, greedy repetition of a character class (\<open>\s*\<close>, \<open>\s+\<close>, \<open>\d+\<close>),
  capturing groups and the word boundary \<open>\b\<close>.  A match attempt from one position returns
  every way of matching, in the order in which the backtracking matcher of \<open>re\<close> tries them;
  the head of the list is the match that \<open>re\<close> reports.
\<close>

datatype rexp =
    Eps
  | Chr char
  | Cls "char \<Rightarrow> bool"
  | Seq rexp rexp
  | Alt rexp rexp
  | Opt rexp
  | Many "char \<Rightarrow> bool"
  | Many1 "char \<Rightarrow> bool"
  | Grp nat rexp
  | WordB

text \<open>A matcher state: the character before the position, the rest of the text, the groups captured.\<close>

type_synonym mstate = "char option \<times> string \<times> (nat \<times> string) list"

definition chr_eq :: "bool \<Rightarrow> char \<Rightarrow> char \<Rightarrow> bool" where
  "chr_eq ic c x = (if ic then lower_chr c = lower_chr x else c = x)"

definition is_word_opt :: "char option \<Rightarrow> bool" where
  "is_word_opt p = (case p of None \<Rightarrow> False | Some c \<Rightarrow> is_word c)"

definition advance :: "char option \<Rightarrow> string \<Rightarrow> (nat \<times> string) list \<Rightarrow> nat \<Rightarrow> mstate" where
  "advance p s g k = (if k = 0 then p else Some (s ! (k - 1)), drop k s, g)"

fun rmatch :: "bool \<Rightarrow> rexp \<Rightarrow> mstate \<Rightarrow> mstate list" where
  "rmatch ic Eps st = [st]"
| "rmatch ic (Chr c) (p, s, g) =
     (case s of [] \<Rightarrow> [] | x # xs \<Rightarrow> if chr_eq ic c x then [(Some x, xs, g)] else [])"
| "rmatch ic (Cls f) (p, s, g) =
     (case s of [] \<Rightarrow> [] | x # xs \<Rightarrow> if f x then [(Some x, xs, g)] else [])"
| "rmatch ic (Seq a b) st = concat (map (rmatch ic b) (rmatch ic a st))"
| "rmatch ic (Alt a b) st = rmatch ic a st @ rmatch ic b st"
| "rmatch ic (Opt a) st = rmatch ic a st @ [st]"
| "rmatch ic (Many f) (p, s, g) =
     map (advance p s g) (rev [0 ..< Suc (length (takeWhile f s))])"
| "rmatch ic (Many1 f) (p, s, g) =
     map (advance p s g) (rev [1 ..< Suc (length (takeWhile f s))])"
| "rmatch ic (Grp n a) (p, s, g) =
     map (\<lambda>(p', s', g'). (p', s', (n, take (length s - length s') s) # g'))
       (rmatch ic a (p, s, g))"
| "rmatch ic WordB (p, s, g) =
     (if is_word_opt p \<noteq> is_word_opt (case s of [] \<Rightarrow> None | x # _ \<Rightarrow> Some x)
      then [(p, s, g)] else [])"

text \<open>\<open>pattern.search(text)\<close>: the first match at the leftmost position that has one.\<close>

fun search_from :: "bool \<Rightarrow> rexp \<Rightarrow> char option \<Rightarrow> string \<Rightarrow> mstate option" where
  "search_from ic r p [] =
     (case rmatch ic r (p, [], []) of [] \<Rightarrow> None | st # _ \<Rightarrow> Some st)"
| "search_from ic r p (x # xs) =
     (case rmatch ic r (p, x # xs, []) of
        [] \<Rightarrow> search_from ic r (Some x) xs
      | st # _ \<Rightarrow> Some st)"

definition re_search :: "bool \<Rightarrow> rexp \<Rightarrow> string \<Rightarrow> mstate option" where
  "re_search ic r s = search_from ic r None s"

definition match_group :: "mstate \<Rightarrow> nat \<Rightarrow> string" where
  "match_group st n = (case map_of (snd (snd st)) n of None \<Rightarrow> [] | Some t \<Rightarrow> t)"

definition chr_in :: "string \<Rightarrow> char \<Rightarrow> bool" where
  "chr_in cs c = (c \<in> set cs)"

definition lit :: "string \<Rightarrow> rexp" where
  "lit s = foldr (\<lambda>c r. Seq (Chr c) r) s Eps"

definition seqs :: "rexp list \<Rightarrow> rexp" where
  "seqs rs = foldr Seq rs Eps"

fun alts :: "rexp list \<Rightarrow> rexp" where
  "alts [] = Eps"
| "alts [r] = r"
| "alts (r # rs) = Alt r (alts rs)"

section \<open>Deadline classifier (compile\_rules.py)\<close>

definition HARD_PAT :: rexp where
  "HARD_PAT = Grp 1 (alts
     [lit ''submit'', lit ''file'', lit ''due'', lit ''deadline'', lit ''lodge'',
      lit ''lodgment'', lit ''upload'', lit ''deliver'', lit ''sign'', lit ''attest'',
      lit ''statutory'',
      seqs [lit ''by'', Many1 is_space, Cls is_digit],
      seqs [lit ''by'', Many1 is_space, lit ''end'', Many1 is_space, lit ''of''],
      seqs [lit ''last'', Many1 is_space, lit ''day'', Many1 is_space, lit ''of''],
      seqs [lit ''within'', Many1 is_space, Many1 is_digit, Many1 is_space,
            Grp 2 (alts [lit ''day'', lit ''days'', lit ''month'', lit ''months'']),
            Many1 is_space,
            Grp 3 (alts [lit ''after'', lit ''of'']),
            Many1 is_space,
            Grp 4 (alts [lit ''fye'', lit ''year'', lit ''year-end''])]])"

definition SOFT_PAT :: rexp where
  "SOFT_PAT = Grp 1 (alts
     [lit ''prepare'', lit ''maintain'',
      seqs [lit ''upon'', Many1 is_space, lit ''request''],
      seqs [lit ''within'', Many1 is_space, Many1 is_digit, Many1 is_space,
            Grp 2 (alts [lit ''day'', lit ''days'']),
            Many1 is_space, lit ''of'', Many1 is_space,
            Grp 3 (alts [lit ''audit'', lit ''request'', lit ''notice''])],
      seqs [lit ''on'', Many1 is_space, lit ''demand''],
      seqs [lit ''keep'', Many1 is_space, lit ''on'', Many1 is_space, lit ''file''],
      seqs [lit ''produce'', Many1 is_space, lit ''upon'', Many1 is_space, lit ''request'']])"

definition classify_deadline :: "string \<Rightarrow> string" where
  "classify_deadline text =
     (if text = [] then ''''
      else let is_hard = (re_search True HARD_PAT text \<noteq> None);
               is_soft = (re_search True SOFT_PAT text \<noteq> None)
           in if is_hard \<and> \<not> is_soft then ''HARD''
              else if is_soft \<and> \<not> is_hard then ''SOFT''
              else if is_hard \<and> is_soft then ''HARD''
              else '''')"

text \<open>The exceptions of the program, as values.\<close>

datatype py_error = KeyError | ValueError | OverflowError

section \<open>Calendar dates\<close>

text \<open>
  A \<open>datetime\<close> value, reduced to its date (every time of day in the program is midnight).
  The constructor raises \<open>ValueError\<close> outside the years 1 to 9999, the months 1 to 12 and
  the days of the month; that is the result \<open>None\<close> here.
\<close>

record date =
  year :: int
  month :: int
  day :: int

definition isleap :: "int \<Rightarrow> bool" where
  "isleap y = (y mod 4 = 0 \<and> (y mod 100 \<noteq> 0 \<or> y mod 400 = 0))"

definition days_in_month :: "int \<Rightarrow> int \<Rightarrow> int" where
  "days_in_month y m =
     (if m = 2 then (if isleap y then 29 else 28)
      else if m = 4 \<or> m = 6 \<or> m = 9 \<or> m = 11 then 30 else 31)"

definition datetime :: "int \<Rightarrow> int \<Rightarrow> int \<Rightarrow> date option" where
  "datetime y m d =
     (if 1 \<le> y \<and> y \<le> 9999 \<and> 1 \<le> m \<and> m \<le> 12 \<and> 1 \<le> d \<and> d \<le> days_in_month y m
      then Some \<lparr>year = y, month = m, day = d\<rparr> else None)"

text \<open>
  \<open>datetime.fromisoformat\<close> on the date-only form \<open>YYYY-MM-DD\<close>, the form the command line
  documents for the fiscal year-end.  Any other string is rejected here; the longer forms
  with a time of day are outside this model.
\<close>

definition fromisoformat :: "string \<Rightarrow> date option" where
  "fromisoformat s =
     (if length s = 10 \<and> s ! 4 = CHR ''-'' \<and> s ! 7 = CHR ''-''
         \<and> list_all is_digit (take 4 s) \<and> list_all is_digit (take 2 (drop 5 s))
         \<and> list_all is_digit (drop 8 s)
      then datetime (int_of_digits (take 4 s)) (int_of_digits (take 2 (drop 5 s)))
             (int_of_digits (drop 8 s))
      else None)"

text \<open>The proleptic Gregorian ordinal of a date (\<open>toordinal\<close>) and its inverse.\<close>

definition days_before_year :: "int \<Rightarrow> int" where
  "days_before_year y = (y - 1) * 365 + (y - 1) div 4 - (y - 1) div 100 + (y - 1) div 400"

definition days_before_month :: "int \<Rightarrow> int \<Rightarrow> int" where
  "days_before_month y m = sum_list (map (days_in_month y) [1 .. m - 1])"

definition toordinal :: "date \<Rightarrow> int" where
  "toordinal d = days_before_year (year d) + days_before_month (year d) (month d) + day d"

definition month_of_yday :: "int \<Rightarrow> int \<Rightarrow> int" where
  "month_of_yday y k = foldl (\<lambda>acc m. if days_before_month y m \<le> k then m else acc) 1 [1 .. 12]"

definition fromordinal :: "int \<Rightarrow> date" where
  "fromordinal n =
     (let n0 = n - 1;
          n400 = n0 div 146097; r = n0 mod 146097;
          n100 = r div 36524; r1 = r mod 36524;
          n4 = r1 div 1461; r2 = r1 mod 1461;
          n1 = r2 div 365; r3 = r2 mod 365;
          y = n400 * 400 + n100 * 100 + n4 * 4 + n1 + 1
      in if n1 = 4 \<or> n100 = 4 then \<lparr>year = y - 1, month = 12, day = 31\<rparr>
         else let m = month_of_yday y r3
              in \<lparr>year = y, month = m, day = r3 - days_before_month y m + 1\<rparr>)"

text \<open>\<open>str(n)\<close> for an integer, and the zero-padded fields of \<open>strftime\<close>.\<close>

function str_of_nat :: "nat \<Rightarrow> string" where
  "str_of_nat n =
     (if n < 10 then [char_of (48 + n)] else str_of_nat (n div 10) @ [char_of (48 + n mod 10)])"
  by pat_completeness auto
termination
  by (relation "measure id") auto

definition str_of_int :: "int \<Rightarrow> string" where
  "str_of_int i = (if i < 0 then CHR ''-'' # str_of_nat (nat (- i)) else str_of_nat (nat i))"

definition zero_pad :: "nat \<Rightarrow> int \<Rightarrow> string" where
  "zero_pad w i = (let s = str_of_int i in replicate (w - length s) CHR ''0'' @ s)"

definition month_abbr :: "int \<Rightarrow> string" where
  "month_abbr m =
     [''Jan'', ''Feb'', ''Mar'', ''Apr'', ''May'', ''Jun'',
      ''Jul'', ''Aug'', ''Sep'', ''Oct'', ''Nov'', ''Dec''] ! nat (m - 1)"

definition month_full :: "int \<Rightarrow> string" where
  "month_full m =
     [''January'', ''February'', ''March'', ''April'', ''May'', ''June'', ''July'',
      ''August'', ''September'', ''October'', ''November'', ''December''] ! nat (m - 1)"

text \<open>\<open>strftime("%Y-%m-%d")\<close> and \<open>strftime("%B %d, %Y")\<close>, on a valid date.\<close>

definition strftime_ymd :: "date \<Rightarrow> string" where
  "strftime_ymd d = zero_pad 4 (year d) @ ''-'' @ zero_pad 2 (month d) @ ''-'' @ zero_pad 2 (day d)"

definition strftime_long :: "date \<Rightarrow> string" where
  "strftime_long d = month_full (month d) @ '' '' @ zero_pad 2 (day d) @ '', '' @ zero_pad 4 (year d)"

text \<open>
  \<open>datetime.strptime(s, "%Y-%m-%d")\<close>: the format becomes the regular expression below
  (the directives \<open>%Y\<close>, \<open>%m\<close>, \<open>%d\<close> of \<open>_strptime\<close>), matched at the start of the text;
  text left over after the match, or an impossible date, is a \<open>ValueError\<close> (\<open>None\<close>).
\<close>

definition STRPTIME_YMD_RE :: rexp where
  "STRPTIME_YMD_RE = seqs
     [Grp 1 (seqs [Cls is_digit, Cls is_digit, Cls is_digit, Cls is_digit]),
      Chr CHR ''-'',
      Grp 2 (alts [Seq (Chr CHR ''1'') (Cls (chr_in ''012'')),
                   Seq (Chr CHR ''0'') (Cls (chr_in ''123456789'')),
                   Cls (chr_in ''123456789'')]),
      Chr CHR ''-'',
      Grp 3 (alts [Seq (Chr CHR ''3'') (Cls (chr_in ''01'')),
                   Seq (Cls (chr_in ''12'')) (Cls is_digit),
                   Seq (Chr CHR ''0'') (Cls (chr_in ''123456789'')),
                   Cls (chr_in ''123456789''),
                   Seq (Chr CHR '' '') (Cls (chr_in ''123456789''))])]"

definition strptime_ymd :: "string \<Rightarrow> date option" where
  "strptime_ymd s =
     (case rmatch True STRPTIME_YMD_RE (None, s, []) of
        [] \<Rightarrow> None
      | st # _ \<Rightarrow>
          if fst (snd st) \<noteq> [] then None
          else datetime (int_of_digits (match_group st 1)) (int_of_digits (match_group st 2))
                 (int_of_digits (strip (match_group st 3))))"

text \<open>
  \<open>dt + relativedelta(months=ms, days=ds)\<close> of \<open>dateutil\<close>: months beyond 11 are carried
  into years, the day is clipped to the length of the target month, and the days are then
  added as a \<open>timedelta\<close>.  \<open>dt.replace\<close> raises \<open>OverflowError\<close> for a year that does not
  fit a C \<open>int\<close> and \<open>ValueError\<close> for a year outside 1 to 9999; \<open>timedelta\<close> raises
  \<open>OverflowError\<close> beyond 999999999 days, and so does a sum that leaves the calendar.
\<close>

definition c_int :: "int \<Rightarrow> bool" where
  "c_int i = (- (2 ^ 31) \<le> i \<and> i < 2 ^ 31)"

definition rd_fix :: "int \<Rightarrow> int \<times> int" where
  "rd_fix ms =
     (if abs ms > 11
      then (((ms * sgn ms) div 12) * sgn ms, ((ms * sgn ms) mod 12) * sgn ms)
      else (0, ms))"

definition MAXORDINAL :: int where
  "MAXORDINAL = 3652059"

definition add_relativedelta :: "date \<Rightarrow> int \<Rightarrow> int \<Rightarrow> py_error + date" where
  "add_relativedelta dt ms ds =
     (let (years, months) = rd_fix ms;
          y0 = year dt + years;
          m0 = month dt + months;
          (y, m) = (if months \<noteq> 0 \<and> m0 > 12 then (y0 + 1, m0 - 12)
                    else if months \<noteq> 0 \<and> m0 < 1 then (y0 - 1, m0 + 12)
                    else (y0, m0));
          d = min (days_in_month y m) (day dt)
      in if \<not> c_int y then Inl OverflowError
         else if y < 1 \<or> 9999 < y then Inl ValueError
         else if abs ds > 999999999 then Inl OverflowError
         else let n = toordinal \<lparr>year = y, month = m, day = d\<rparr> + ds
              in if n < 1 \<or> MAXORDINAL < n then Inl OverflowError
                 else Inr (fromordinal n))"

section \<open>Month extractor (compile\_rules.py)\<close>

definition MONTH_MAP :: "(string \<times> int) list" where
  "MONTH_MAP =
     [(''jan'', 1), (''feb'', 2), (''mar'', 3), (''apr'', 4), (''may'', 5), (''jun'', 6),
      (''jul'', 7), (''aug'', 8), (''sep'', 9), (''oct'', 10), (''nov'', 11), (''dec'', 12)]"

definition MONTH_RE :: rexp where
  "MONTH_RE = seqs
     [WordB,
      Grp 1 (alts
        [Seq (lit ''jan'') (Opt (lit ''uary'')),
         Seq (lit ''feb'') (Opt (lit ''ruary'')),
         Seq (lit ''mar'') (Opt (lit ''ch'')),
         Seq (lit ''apr'') (Opt (lit ''il'')),
         lit ''may'',
         Seq (lit ''jun'') (Opt (lit ''e'')),
         Seq (lit ''jul'') (Opt (lit ''y'')),
         Seq (lit ''aug'') (Opt (lit ''ust'')),
         Seq (lit ''sep'') (Opt (Seq (lit ''t'') (Opt (lit ''ember'')))),
         Seq (lit ''oct'') (Opt (lit ''ober'')),
         Seq (lit ''nov'') (Opt (lit ''ember'')),
         Seq (lit ''dec'') (Opt (lit ''ember''))]),
      WordB]"

text \<open>The separator class \<open>[/\-.]\<close>.\<close>

definition date_sep :: rexp where
  "date_sep = Cls (chr_in ''/-.'')"

text \<open>\<open>\b([0-3]?\d)\s*[/\-.]\s*(0?[1-9]|1[0-2])\b\<close>\<close>

definition NUMERIC_DATE_RE :: rexp where
  "NUMERIC_DATE_RE = seqs
     [WordB,
      Grp 1 (Seq (Opt (Cls (chr_in ''0123''))) (Cls is_digit)),
      Many is_space, date_sep, Many is_space,
      Grp 2 (Alt (Seq (Opt (Chr CHR ''0'')) (Cls (chr_in ''123456789'')))
                 (Seq (Chr CHR ''1'') (Cls (chr_in ''012'')))),
      WordB]"

text \<open>\<open>(\d+)\s*(?:month|months)\s+after\s+(?:fye|fy-?end|year[-\s]?end)\<close>\<close>

definition REL_RE :: rexp where
  "REL_RE = seqs
     [Grp 1 (Many1 is_digit),
      Many is_space,
      Alt (lit ''month'') (lit ''months''),
      Many1 is_space, lit ''after'', Many1 is_space,
      alts [lit ''fye'',
            seqs [lit ''fy'', Opt (Chr CHR ''-''), lit ''end''],
            seqs [lit ''year'', Opt (Cls (\<lambda>c. c = CHR ''-'' \<or> is_space c)), lit ''end'']]]"

text \<open>\<open>\b31\s*[/\-.]\s*12\b\<close>\<close>

definition DEC31_RE :: rexp where
  "DEC31_RE = seqs [WordB, lit ''31'', Many is_space, date_sep, Many is_space, lit ''12'', WordB]"

text \<open>
  \<open>_month_from_text\<close>.  The lookup \<open>MONTH_MAP[...]\<close> raises \<open>KeyError\<close> on a missing key,
  so the result is a sum; \<open>Inr None\<close> is the return value \<open>None\<close>.
\<close>

definition month_from_text :: "string \<Rightarrow> string \<Rightarrow> py_error + int option" where
  "month_from_text text fye_str =
     (if text = [] then Inr None
      else
        let t = lower text in
        if contains t ''upon request'' \<or> contains t ''not applicable'' then Inr None
        else
          let m = re_search True MONTH_RE t in
          if m \<noteq> None then
            (case map_of MONTH_MAP (lower (take 3 (match_group (the m) 1))) of
               None \<Rightarrow> Inl KeyError
             | Some v \<Rightarrow> Inr (Some v))
          else
            let m = re_search False NUMERIC_DATE_RE t in
            if m \<noteq> None then Inr (Some (int_of_digits (match_group (the m) 2)))
            else
              let rel = re_search False REL_RE t;
                  fye = (if fye_str \<noteq> [] then fromisoformat fye_str else None)
              in
              if rel \<noteq> None \<and> fye \<noteq> None then
                (let offset = int_of_digits (match_group (the rel) 1);
                     base = month (the fye)
                 in Inr (Some (((base - 1 + offset) mod 12) + 1)))
              else if fye \<noteq> None \<and> (contains t ''year-end'' \<or> contains t ''year end''
                                      \<or> contains t ''fy-end'' \<or> contains t ''fy end'')
              then Inr (Some (month (the fye)))
              else if re_search False DEC31_RE t \<noteq> None then Inr (Some 12)
              else Inr None)"

section \<open>Cells and rows of the parsed tables\<close>

text \<open>
  A cell of a parsed sheet: \<open>CMissing\<close> is the \<open>None\<close> that \<open>r.get\<close> returns for an absent
  column, \<open>CNaN\<close> a blank cell, \<open>CStr\<close> a text cell and \<open>CInt\<close> a numeric cell with an
  integer value.  A row maps column names to cells.
\<close>

datatype cell = CMissing | CNaN | CStr string | CInt int

type_synonym row = "(string \<times> cell) list"

definition rget :: "row \<Rightarrow> string \<Rightarrow> cell" where
  "rget r k = (case map_of r k of None \<Rightarrow> CMissing | Some c \<Rightarrow> c)"

definition clean :: "cell \<Rightarrow> string" where
  "clean x = (case x of CMissing \<Rightarrow> '''' | CNaN \<Rightarrow> '''' | CStr s \<Rightarrow> strip s | CInt n \<Rightarrow> str_of_int n)"

text \<open>\<open>str(x)\<close>, the truth value of a cell, and \<open>a or b\<close> on cells.\<close>

definition py_str :: "cell \<Rightarrow> string" where
  "py_str x = (case x of CMissing \<Rightarrow> ''None'' | CNaN \<Rightarrow> ''nan'' | CStr s \<Rightarrow> s | CInt n \<Rightarrow> str_of_int n)"

definition truthy :: "cell \<Rightarrow> bool" where
  "truthy x = (case x of CMissing \<Rightarrow> False | CNaN \<Rightarrow> True | CStr s \<Rightarrow> s \<noteq> [] | CInt n \<Rightarrow> n \<noteq> 0)"

definition cell_or :: "cell \<Rightarrow> cell \<Rightarrow> cell" where
  "cell_or a b = (if truthy a then a else b)"

subsection \<open>Floating-point conversions\<close>

text \<open>
  A Python \<open>float\<close> is a finite binary64 value (kept as the rational it denotes), an infinity
  with its sign, or a NaN.  \<open>round_double\<close> rounds a rational to the nearest binary64 value,
  ties to even, with gradual underflow and overflow to infinity.
\<close>

datatype pyfloat = Finite rat | Infinite bool | NotANumber

definition pow2 :: "int \<Rightarrow> rat" where
  "pow2 e = (if 0 \<le> e then 2 ^ nat e else 1 / 2 ^ nat (- e))"

definition pow10 :: "int \<Rightarrow> rat" where
  "pow10 e = (if 0 \<le> e then 10 ^ nat e else 1 / 10 ^ nat (- e))"

definition ilog2 :: "rat \<Rightarrow> int" where
  "ilog2 a = (let (n, d) = quotient_of a; e = bitlen n - bitlen d
              in if pow2 e \<le> a then e else e - 1)"

definition round_double :: "rat \<Rightarrow> pyfloat" where
  "round_double q =
     (if q = 0 then Finite 0
      else let a = abs q;
               ex = max (ilog2 a) (- 1022);
               ulp = pow2 (ex - 52);
               k = a / ulp;
               f = \<lfloor>k\<rfloor>;
               r = k - of_int f;
               n = (if r > 1 / 2 \<or> (r = 1 / 2 \<and> odd f) then f + 1 else f);
               v = of_int n * ulp
           in if pow2 1024 \<le> v then Infinite (q < 0) else Finite (sgn q * v))"

text \<open>\<open>float(n)\<close> for an integer: exact up to \<open>2^53\<close>, rounded beyond, \<open>OverflowError\<close> (\<open>None\<close>) when too large.\<close>

definition float_of_int :: "int \<Rightarrow> pyfloat option" where
  "float_of_int n =
     (if abs n \<le> 2 ^ 53 then Some (Finite (of_int n))
      else case round_double (of_int n) of Infinite _ \<Rightarrow> None | f \<Rightarrow> Some f)"

text \<open>A run of digits in which single underscores may separate digits; returns the digits and the rest.\<close>

function digitpart :: "string \<Rightarrow> string \<times> string" where
  "digitpart [] = ([], [])"
| "digitpart (c # cs) =
     (if \<not> is_digit c then ([], c # cs)
      else let rest = (if starts_with cs ''_'' \<and> length cs \<ge> 2 \<and> is_digit (cs ! 1) then tl cs else cs);
               (ds, r) = digitpart rest
           in (c # ds, r))"
  by pat_completeness auto
termination
  by (relation "measure length") auto

definition split_sign :: "string \<Rightarrow> bool \<times> string" where
  "split_sign s =
     (case s of [] \<Rightarrow> (False, [])
      | c # cs \<Rightarrow> if c = CHR ''-'' then (True, cs) else if c = CHR ''+'' then (False, cs) else (False, s))"

text \<open>The decimal literal after the sign: mantissa digits and decimal exponent, or \<open>None\<close>.\<close>

definition decimal_literal :: "string \<Rightarrow> (int \<times> int) option" where
  "decimal_literal u =
     (let (ip, r1) = digitpart u;
          (fp, r2) = (if starts_with r1 ''.'' then digitpart (tl r1) else ([], r1))
      in if ip = [] \<and> fp = [] then None
         else if r2 = [] then Some (int_of_digits (ip @ fp), - int (length fp))
         else if hd r2 = CHR ''e'' \<or> hd r2 = CHR ''E'' then
           (let (eneg, r3) = split_sign (tl r2);
                (ed, r4) = digitpart r3
            in if ed = [] \<or> r4 \<noteq> [] then None
               else Some (int_of_digits (ip @ fp),
                          (if eneg then - int_of_digits ed else int_of_digits ed) - int (length fp)))
         else None)"

text \<open>\<open>float(s)\<close> for a string; \<open>None\<close> is \<open>ValueError\<close>.\<close>

definition float_of_str :: "string \<Rightarrow> pyfloat option" where
  "float_of_str s =
     (let (neg, u) = split_sign (strip s)
      in if lower u = ''inf'' \<or> lower u = ''infinity'' then Some (Infinite neg)
         else if lower u = ''nan'' then Some NotANumber
         else case decimal_literal u of
                None \<Rightarrow> None
              | Some (m, e) \<Rightarrow> Some (round_double ((if neg then - 1 else 1) * of_int m * pow10 e)))"

text \<open>\<open>int(f)\<close> truncates towards zero; it raises on an infinity or a NaN (\<open>None\<close>).\<close>

definition int_of_float :: "pyfloat \<Rightarrow> int option" where
  "int_of_float f =
     (case f of Finite q \<Rightarrow> Some (if 0 \<le> q then \<lfloor>q\<rfloor> else - \<lfloor>- q\<rfloor>)
      | Infinite _ \<Rightarrow> None | NotANumber \<Rightarrow> None)"

definition float_of_cell :: "cell \<Rightarrow> pyfloat option" where
  "float_of_cell x =
     (case x of CMissing \<Rightarrow> None | CNaN \<Rightarrow> None
      | CStr s \<Rightarrow> if s = [] then None else float_of_str s
      | CInt n \<Rightarrow> float_of_int n)"

text \<open>\<open>as_int\<close> and \<open>as_float\<close>: every exception becomes \<open>None\<close>.\<close>

definition as_int :: "cell \<Rightarrow> int option" where
  "as_int x = (case float_of_cell x of None \<Rightarrow> None | Some f \<Rightarrow> int_of_float f)"

definition as_float :: "cell \<Rightarrow> pyfloat option" where
  "as_float x = float_of_cell x"

definition month_name :: "int option \<Rightarrow> string" where
  "month_name m =
     (case m of None \<Rightarrow> ''''
      | Some n \<Rightarrow> if n \<noteq> 0 \<and> 1 \<le> n \<and> n \<le> 12 then month_abbr n else '''')"

section \<open>Packed records (compile\_rules2.py)\<close>

text \<open>
  The dictionaries that the row packers build are records here; the field \<open>dl_x\<close>, \<open>fm_x\<close>,
  \<open>cb_x\<close>, \<open>cit_x\<close> or \<open>th_x\<close> is the dictionary key \<open>x\<close>.  A key that a dictionary may
  lack (\<open>doc_type\<close> before the caller adds it, \<open>calculated_date\<close>) is an optional field.
  The record \<open>anchored\<close> holds the keys shared by deadline, form and notification
  dictionaries, on which the anchored-deadline calculator works.
\<close>

record anchored =
  dl_requirement_type :: string
  dl_deadline_kind :: string
  dl_month :: "int option"
  dl_day :: "int option"
  dl_month_name :: string
  dl_event_anchor :: string
  dl_offset_days :: "int option"
  dl_offset_months :: "int option"
  dl_text :: string
  dl_calculated_date :: "string option"

record deadline = anchored +
  dl_group_id :: string
  dl_seq :: int
  dl_doc_type :: "string option"

record form = deadline +
  fm_name :: string
  fm_included_in_return :: string

record notification = anchored +
  cb_required :: string
  cb_included_in_cit :: string
  cb_annual :: string
  cb_single_filer_ok :: string

record cit =
  cit_group_id :: string
  cit_seq :: int
  cit_taxpayer_type :: string
  cit_condition_metric :: string
  cit_condition_op :: string
  cit_condition_value :: "pyfloat option"
  cit_deadline_kind :: string
  cit_month :: "int option"
  cit_day :: "int option"
  cit_month_name :: string
  cit_offset_months :: "int option"
  cit_offset_days :: "int option"
  cit_text :: string

record threshold =
  th_group_id :: string
  th_seq :: int
  th_requirement_applies :: string
  th_op :: string
  th_amount :: "pyfloat option"
  th_currency :: string
  th_metric :: string
  th_metric_basis :: string
  th_note :: string
  th_is_applicable :: bool
  th_doc_type :: "string option"

text \<open>\<open>x or 0\<close> on an optional integer.\<close>

definition or0 :: "int option \<Rightarrow> int" where
  "or0 x = (case x of None \<Rightarrow> 0 | Some n \<Rightarrow> n)"

definition pack_threshold_row :: "row \<Rightarrow> threshold" where
  "pack_threshold_row r =
     (let requirement_applies = clean (rget r ''RequirementApplies'')
      in \<lparr>th_group_id = clean (rget r ''GroupID''),
          th_seq = or0 (as_int (rget r ''Seq'')),
          th_requirement_applies = requirement_applies,
          th_op = clean (rget r ''ThresholdOperator''),
          th_amount = as_float (rget r ''ThresholdAmount''),
          th_currency = clean (rget r ''ThresholdCurrency''),
          th_metric = clean (rget r ''ThresholdMetric''),
          th_metric_basis = clean (rget r ''MetricBasisText''),
          th_note = clean (rget r ''DisplayNote''),
          th_is_applicable =
            (if requirement_applies \<noteq> []
             then lower requirement_applies \<notin> set [''no'', ''n'', ''n/a'', ''false'', ''0'']
             else True),
          th_doc_type = None\<rparr>)"

definition anchored_of_row :: "row \<Rightarrow> 'a \<Rightarrow> 'a anchored_scheme" where
  "anchored_of_row r ext =
     (let m = as_int (rget r ''Month'')
      in \<lparr>dl_requirement_type = clean (rget r ''RequirementType''),
          dl_deadline_kind = clean (rget r ''DeadlineKind''),
          dl_month = m,
          dl_day = as_int (rget r ''Day''),
          dl_month_name = (if m \<noteq> None \<and> m \<noteq> Some 0 then month_name m else ''''),
          dl_event_anchor = clean (rget r ''EventAnchor''),
          dl_offset_days = as_int (rget r ''OffsetDays''),
          dl_offset_months = as_int (rget r ''OffsetMonths''),
          dl_text = clean (rget r ''DisplayText''),
          dl_calculated_date = None,
          \<dots> = ext\<rparr>)"

definition pack_deadline_row :: "row \<Rightarrow> deadline" where
  "pack_deadline_row r =
     anchored_of_row r
       (deadline.fields (clean (rget r ''GroupID'')) (or0 (as_int (rget r ''Seq''))) None)"

definition pack_form_row :: "row \<Rightarrow> form" where
  "pack_form_row r =
     deadline.extend (pack_deadline_row r)
       (form.fields (clean (rget r ''FormName'')) (clean (rget r ''IncludedInReturn'')))"

definition pack_cbcr_row :: "row \<Rightarrow> notification" where
  "pack_cbcr_row r =
     anchored_of_row r
       (notification.fields (clean (rget r ''Required'')) (clean (rget r ''IncludedInCITReturn''))
          (clean (rget r ''AnnualNotification'')) (clean (rget r ''SingleFilerAllowed'')))"

text \<open>\<open>a or b or c\<close> over three columns of a row.\<close>

definition rget3 :: "row \<Rightarrow> string \<Rightarrow> string \<Rightarrow> string \<Rightarrow> cell" where
  "rget3 r a b c = cell_or (cell_or (rget r a) (rget r b)) (rget r c)"

definition not_na :: "cell \<Rightarrow> bool" where
  "not_na x = (upper (strip (py_str x)) \<noteq> ''N/A'')"

definition pack_cit_row :: "row \<Rightarrow> cit" where
  "pack_cit_row r =
     (let m = as_int (rget r ''Month'');
          offset_months_val = rget3 r ''OffsetMonths'' ''Offset Months'' ''offset_months'';
          offset_days_val = rget3 r ''OffsetDays'' ''Offset Days'' ''offset_days'';
          offset_months = (if not_na offset_months_val then as_int offset_months_val else None);
          offset_days = (if not_na offset_days_val then as_int offset_days_val else None)
      in \<lparr>cit_group_id = clean (rget3 r ''GroupID'' ''Group ID'' ''group_id''),
          cit_seq = or0 (as_int (rget r ''Seq'')),
          cit_taxpayer_type = clean (rget3 r ''TaxpayerType'' ''Taxpayer Type'' ''taxpayer_type''),
          cit_condition_metric =
            (if not_na (rget r ''ConditionMetric'')
             then clean (cell_or (rget r ''ConditionMetric'') (rget r ''Condition Metric''))
             else ''''),
          cit_condition_op =
            (if not_na (rget r ''ConditionOperator'')
             then clean (cell_or (rget r ''ConditionOperator'') (rget r ''Condition Operator''))
             else ''''),
          cit_condition_value =
            (if not_na (rget r ''ConditionValue'')
             then as_float (cell_or (rget r ''ConditionValue'') (rget r ''Condition Value''))
             else None),
          cit_deadline_kind = clean (rget3 r ''DeadlineKind'' ''Deadline Kind'' ''deadline_kind''),
          cit_month = m,
          cit_day = as_int (rget r ''Day''),
          cit_month_name = (if m \<noteq> None \<and> m \<noteq> Some 0 then month_name m else ''''),
          cit_offset_months = offset_months,
          cit_offset_days = offset_days,
          cit_text = clean (rget3 r ''DisplayText'' ''Display Text'' ''display_text'')\<rparr>)"

definition YES_VALUES :: "string list" where
  "YES_VALUES = [''yes'', ''y'', ''true'', ''1'']"

text \<open>\<open>not row.get("amount")\<close>: the amount is absent or a zero.\<close>

definition float_falsy :: "pyfloat option \<Rightarrow> bool" where
  "float_falsy a = (a = None \<or> a = Some (Finite 0))"

definition validate_threshold_data :: "threshold \<Rightarrow> bool" where
  "validate_threshold_data row =
     (if lower (th_requirement_applies row) \<in> set YES_VALUES
      then (if th_op row \<noteq> [] \<and> float_falsy (th_amount row) then False else True)
      else True)"

section \<open>Event-anchored deadline calculator (compile\_rules2.py)\<close>

definition tax_return_indicators :: "string list" where
  "tax_return_indicators =
     [''RETURN_DUE_DATE'', ''TAX_RETURN'', ''CIT_RETURN'',
      ''CORPORATE_TAX'', ''WITH_RETURN'', ''FILING_DATE'', ''TAX_FILING'']"

definition is_tax_return_based :: "'a anchored_scheme \<Rightarrow> bool" where
  "is_tax_return_based deadline_info =
     (let deadline_kind = upper (dl_deadline_kind deadline_info);
          event_anchor = upper (dl_event_anchor deadline_info)
      in deadline_kind \<in> set tax_return_indicators
         \<or> list_ex (\<lambda>indicator. contains event_anchor indicator) tax_return_indicators
         \<or> contains (lower (dl_text deadline_info)) ''tax return'')"

text \<open>
  \<open>datetime(year, month, day)\<close> on integers read from a sheet: an argument that does not
  fit a C \<open>int\<close> raises \<open>OverflowError\<close>, which the \<open>except ValueError\<close> around the call
  does not catch; an impossible date raises \<open>ValueError\<close>, which it does.
\<close>

definition datetime_checked :: "int \<Rightarrow> int \<Rightarrow> int \<Rightarrow> py_error + date option" where
  "datetime_checked y m d =
     (if \<not> c_int y \<or> \<not> c_int m \<or> \<not> c_int d then Inl OverflowError else Inr (datetime y m d))"

text \<open>
  The date of the tax-filing deadline \<open>cit_deadline\<close>; \<open>Inr None\<close> when it stays unresolved.
  \<open>now_year\<close> is \<open>datetime.now().year\<close>.
\<close>

definition cit_date_of :: "int \<Rightarrow> cit \<Rightarrow> string \<Rightarrow> py_error + date option" where
  "cit_date_of now_year cit_deadline fye_str =
     (let cit_kind = upper (cit_deadline_kind cit_deadline)
      in if cit_kind = ''FIXED_DATE'' then
           (case (cit_month cit_deadline, cit_day cit_deadline) of
              (Some m, Some d) \<Rightarrow>
                if m \<noteq> 0 \<and> d \<noteq> 0 then
                  (if fye_str \<noteq> [] then
                     (case strptime_ymd fye_str of
                        None \<Rightarrow> Inr None
                      | Some fye_date \<Rightarrow> datetime_checked (year fye_date + 1) m d)
                   else datetime_checked (now_year + 1) m d)
                else Inr None
            | _ \<Rightarrow> Inr None)
         else if cit_kind = ''FYE_RELATIVE'' \<and> fye_str \<noteq> [] then
           (case strptime_ymd fye_str of
              None \<Rightarrow> Inr None
            | Some fye_date \<Rightarrow>
                (case add_relativedelta fye_date (or0 (cit_offset_months cit_deadline))
                        (or0 (cit_offset_days cit_deadline)) of
                   Inl e \<Rightarrow> if e = ValueError then Inr None else Inl e
                 | Inr d \<Rightarrow> Inr (Some d)))
         else Inr None)"

definition with_calculated :: "'a anchored_scheme \<Rightarrow> date \<Rightarrow> string \<Rightarrow> 'a anchored_scheme" where
  "with_calculated deadline_info calculated_date synthesized =
     deadline_info
       \<lparr>dl_calculated_date := Some (strftime_ymd calculated_date),
        dl_month := Some (month calculated_date),
        dl_day := Some (day calculated_date),
        dl_month_name := month_abbr (month calculated_date),
        dl_text := (if dl_text deadline_info = [] then synthesized else dl_text deadline_info)\<rparr>"

text \<open>
  \<open>calculate_deadline_from_cit\<close>.  \<open>relativedelta\<close> tells whether \<open>dateutil\<close> could be
  imported.  A packed record is never an empty dictionary, so the test
  \<open>not deadline_info\<close> is always false.
\<close>

definition calculate_deadline_from_cit ::
  "bool \<Rightarrow> int \<Rightarrow> 'a anchored_scheme \<Rightarrow> cit list \<Rightarrow> string \<Rightarrow> py_error + 'a anchored_scheme" where
  "calculate_deadline_from_cit relativedelta now_year deadline_info cit_deadlines fye_str =
     (case cit_deadlines of
        [] \<Rightarrow> Inr deadline_info
      | cit_deadline # _ \<Rightarrow>
          if \<not> relativedelta then Inr deadline_info
          else if \<not> is_tax_return_based deadline_info then Inr deadline_info
          else
            (case cit_date_of now_year cit_deadline fye_str of
               Inl e \<Rightarrow> Inl e
             | Inr None \<Rightarrow> Inr deadline_info
             | Inr (Some cit_date) \<Rightarrow>
                 let tp_offset_months = or0 (dl_offset_months deadline_info);
                     tp_offset_days = or0 (dl_offset_days deadline_info)
                 in if tp_offset_months = 0 \<and> tp_offset_days = 0 then
                      Inr (with_calculated deadline_info cit_date
                             (''Due with tax return ('' @ strftime_long cit_date @ '')''))
                    else
                      (case add_relativedelta cit_date tp_offset_months tp_offset_days of
                         Inl e \<Rightarrow> Inl e
                       | Inr calculated_date \<Rightarrow>
                           Inr (with_calculated deadline_info calculated_date
                                  (str_of_int tp_offset_months @ ''m '' @ str_of_int tp_offset_days
                                   @ ''d after tax return ('' @ strftime_long calculated_date @ '')'')))))"

section \<open>Country registry (compile\_rules2.py)\<close>

text \<open>
  A parsed sheet: its column names and its rows.  \<open>norm_cols\<close> strips the column names.
  A workbook maps sheet names to sheets.
\<close>

record table =
  columns :: "string list"
  rows :: "row list"

type_synonym workbook = "string \<rightharpoonup> table"

definition norm_cols :: "table \<Rightarrow> table" where
  "norm_cols df =
     \<lparr>columns = map strip (columns df),
      rows = map (map (\<lambda>(k, v). (strip k, v))) (rows df)\<rparr>"

text \<open>
  \<open>find_col\<close>: the dictionary \<open>lc\<close> keeps, for a lowercased name, the last column with
  that name; the first pass looks the candidates up in it, the second pass takes the first
  column that contains a candidate.
\<close>

definition find_col :: "string list \<Rightarrow> string list \<Rightarrow> string option" where
  "find_col cols candidates =
     (let lc = map_of (rev (map (\<lambda>c. (lower c, c)) cols))
      in case List.find (\<lambda>cand. lc (lower cand) \<noteq> None) candidates of
           Some cand \<Rightarrow> lc (lower cand)
         | None \<Rightarrow> List.find (\<lambda>c. list_ex (\<lambda>cand. contains (lower c) (lower cand)) candidates) cols)"

text \<open>\<open>r.get(col)\<close> for a column that may be \<open>None\<close>.\<close>

definition rget_opt :: "row \<Rightarrow> string option \<Rightarrow> cell" where
  "rget_opt r col = (case col of None \<Rightarrow> CMissing | Some k \<Rightarrow> rget r k)"

type_synonym strmap = "string \<rightharpoonup> string"

definition country_map_row ::
  "string option \<Rightarrow> string option \<Rightarrow> string option \<Rightarrow> row \<Rightarrow> strmap \<times> strmap \<Rightarrow> strmap \<times> strmap" where
  "country_map_row country_col code3_col region_col r maps =
     (let (name_to_region, code_to_name) = maps;
          nm = clean (rget_opt r country_col);
          code3 = (if code3_col \<noteq> None then clean (rget_opt r code3_col) else '''');
          reg = clean (rget_opt r region_col)
      in if reg \<noteq> [] then
           (let n2r = (if nm \<noteq> [] then name_to_region(lower nm \<mapsto> reg) else name_to_region)
            in if code3 \<noteq> [] then (n2r(lower code3 \<mapsto> reg), code_to_name(upper code3 \<mapsto> nm))
               else (n2r, code_to_name))
         else (name_to_region, code_to_name))"

definition load_country_map :: "table \<Rightarrow> py_error + (strmap \<times> strmap)" where
  "load_country_map df_country =
     (let df = norm_cols df_country;
          country_col = find_col (columns df) [''Country'', ''Jurisdiction''];
          code3_col = find_col (columns df) [''Code_3'', ''Code 3'', ''Code3'', ''ISO3'', ''ISO_3'', ''ISO-3''];
          region_col = find_col (columns df) [''Region'']
      in if country_col = None then Inl ValueError
         else Inr (fold (country_map_row country_col code3_col region_col) (rows df)
                     (Map.empty, Map.empty)))"

record country =
  name :: string
  region :: string
  lf_tpd_thresholds :: "threshold list"
  lf_tpd_deadlines :: "deadline list"
  mf_thresholds :: "threshold list"
  mf_deadlines :: "deadline list"
  tp_forms :: "form list"
  cbcr :: "notification option"
  cit_deadlines :: "cit list"

text \<open>
  The registry is a dictionary; its entries are kept in insertion order, which is the
  order of \<open>countries.values()\<close>.
\<close>

type_synonym registry = "(string \<times> country) list"

definition new_country :: "string \<Rightarrow> string \<Rightarrow> country" where
  "new_country full_name reg =
     \<lparr>name = full_name, region = reg,
      lf_tpd_thresholds = [], lf_tpd_deadlines = [],
      mf_thresholds = [], mf_deadlines = [],
      tp_forms = [], cbcr = None, cit_deadlines = []\<rparr>"

text \<open>
  \<open>ensure_country\<close> returns the record stored under the key; the model returns the key,
  with the registry as it is after the call.  \<open>None\<close> is the return value \<open>None\<close>.
\<close>

definition ensure_country ::
  "registry \<Rightarrow> string \<Rightarrow> strmap \<Rightarrow> strmap \<Rightarrow> string option \<times> registry" where
  "ensure_country reg j_value name_to_region code_to_name =
     (if j_value = [] then (None, reg)
      else
        let nm = clean (CStr j_value);
            full_name = (case code_to_name (upper nm) of None \<Rightarrow> nm | Some n \<Rightarrow> n);
            key = lower full_name
        in if map_of reg key = None then
             (let r = (case name_to_region (lower nm) of None \<Rightarrow> '''' | Some x \<Rightarrow> x)
              in (Some key, reg @ [(key, new_country full_name r)]))
           else (Some key, reg))"

section \<open>Compiler core (compile\_rules2.py)\<close>

record cstate =
  countries :: registry
  unmatched :: "string set"

text \<open>
  One pass of a category loop over a row: resolve the jurisdiction, skip the row and note
  the token when there is no record, else run the body of the loop on the record.
\<close>

definition ingest_row ::
  "(row \<Rightarrow> country \<Rightarrow> country) \<Rightarrow> strmap \<Rightarrow> strmap \<Rightarrow> row \<Rightarrow> cstate \<Rightarrow> cstate" where
  "ingest_row body name_to_region code_to_name r st =
     (let j = clean (rget r ''Jurisdiction'');
          (c, reg) = ensure_country (countries st) j name_to_region code_to_name
      in case c of
           None \<Rightarrow> st\<lparr>countries := reg, unmatched := insert j (unmatched st)\<rparr>
         | Some key \<Rightarrow> st\<lparr>countries := AList.map_entry key (body r) reg\<rparr>)"

definition ingest ::
  "(row \<Rightarrow> country \<Rightarrow> country) \<Rightarrow> strmap \<Rightarrow> strmap \<Rightarrow> table \<Rightarrow> cstate \<Rightarrow> cstate" where
  "ingest body name_to_region code_to_name df st =
     fold (ingest_row body name_to_region code_to_name) (rows df) st"

definition doc_type_of :: "row \<Rightarrow> string \<Rightarrow> string" where
  "doc_type_of r dflt = clean (cell_or (rget r ''DocTypeNormalized'') (CStr dflt))"

definition lf_threshold_body :: "row \<Rightarrow> country \<Rightarrow> country" where
  "lf_threshold_body r c =
     (let row = (pack_threshold_row r)\<lparr>th_doc_type := Some (doc_type_of r ''LF'')\<rparr>
      in if validate_threshold_data row
         then c\<lparr>lf_tpd_thresholds := lf_tpd_thresholds c @ [row]\<rparr> else c)"

definition lf_deadline_body :: "row \<Rightarrow> country \<Rightarrow> country" where
  "lf_deadline_body r c =
     (let row = (pack_deadline_row r)\<lparr>dl_doc_type := Some (doc_type_of r ''LF'')\<rparr>
      in c\<lparr>lf_tpd_deadlines := lf_tpd_deadlines c @ [row]\<rparr>)"

definition mf_threshold_body :: "row \<Rightarrow> country \<Rightarrow> country" where
  "mf_threshold_body r c =
     (let row = (pack_threshold_row r)\<lparr>th_doc_type := Some (doc_type_of r ''MF'')\<rparr>
      in if validate_threshold_data row
         then c\<lparr>mf_thresholds := mf_thresholds c @ [row]\<rparr> else c)"

definition mf_deadline_body :: "row \<Rightarrow> country \<Rightarrow> country" where
  "mf_deadline_body r c =
     (let row = (pack_deadline_row r)\<lparr>dl_doc_type := Some (doc_type_of r ''MF'')\<rparr>
      in c\<lparr>mf_deadlines := mf_deadlines c @ [row]\<rparr>)"

definition form_body :: "row \<Rightarrow> country \<Rightarrow> country" where
  "form_body r c =
     (let row = (pack_form_row r)\<lparr>dl_doc_type := Some (doc_type_of r ''Fm'')\<rparr>
      in c\<lparr>tp_forms := tp_forms c @ [row]\<rparr>)"

text \<open>A notification row counts when it is required or included in the tax return.\<close>

definition cbcr_qualifies :: "row \<Rightarrow> bool" where
  "cbcr_qualifies r =
     (let row = pack_cbcr_row r;
          req = lower (cb_required row);
          in_cit = lower (cb_included_in_cit row);
          is_required = (req \<in> set YES_VALUES);
          is_in_cit = (in_cit \<in> set YES_VALUES)
      in is_required \<or> is_in_cit)"

definition cbcr_body :: "row \<Rightarrow> country \<Rightarrow> country" where
  "cbcr_body r c = (if \<not> cbcr_qualifies r then c else c\<lparr>cbcr := Some (pack_cbcr_row r)\<rparr>)"

text \<open>The tax-filing rows look the country up by its full name, then by the code as a key.\<close>

definition cit_row :: "strmap \<Rightarrow> row \<Rightarrow> registry \<Rightarrow> registry" where
  "cit_row code_to_name r reg =
     (let j = clean (rget r ''Jurisdiction (3-letter code)'')
      in if j = [] then reg
         else
           let full_country_name = (case code_to_name (upper j) of None \<Rightarrow> j | Some n \<Rightarrow> n);
               country_found =
                 (case List.find (\<lambda>(key, country_data). name country_data = full_country_name) reg of
                    Some kc \<Rightarrow> Some (fst kc)
                  | None \<Rightarrow> map_option fst (List.find (\<lambda>(key, country_data). key = lower j) reg))
           in case country_found of
                None \<Rightarrow> reg
              | Some key \<Rightarrow>
                  AList.map_entry key
                    (\<lambda>c. c\<lparr>cit_deadlines := cit_deadlines c @ [pack_cit_row r]\<rparr>) reg)"

definition sort_groups :: "country \<Rightarrow> country" where
  "sort_groups c =
     c\<lparr>lf_tpd_thresholds := sort_key (\<lambda>x. (th_group_id x, th_seq x)) (lf_tpd_thresholds c),
       lf_tpd_deadlines := sort_key (\<lambda>x. (dl_group_id x, dl_seq x)) (lf_tpd_deadlines c),
       mf_thresholds := sort_key (\<lambda>x. (th_group_id x, th_seq x)) (mf_thresholds c),
       mf_deadlines := sort_key (\<lambda>x. (dl_group_id x, dl_seq x)) (mf_deadlines c),
       tp_forms := sort_key (\<lambda>x. (dl_group_id x, dl_seq x)) (tp_forms c),
       cit_deadlines := sort_key (\<lambda>x. (cit_group_id x, cit_seq x)) (cit_deadlines c)\<rparr>"

text \<open>A loop whose body may raise: the first exception ends it.\<close>

fun map_err :: "('a \<Rightarrow> 'e + 'b) \<Rightarrow> 'a list \<Rightarrow> 'e + 'b list" where
  "map_err f [] = Inr []"
| "map_err f (x # xs) =
     (case f x of
        Inl e \<Rightarrow> Inl e
      | Inr y \<Rightarrow> (case map_err f xs of Inl e \<Rightarrow> Inl e | Inr ys \<Rightarrow> Inr (y # ys)))"

definition enhance_country :: "bool \<Rightarrow> int \<Rightarrow> string \<Rightarrow> country \<Rightarrow> py_error + country" where
  "enhance_country relativedelta now_year fye_str country_data =
     (let cits = cit_deadlines country_data
      in if cits = [] then Inr country_data
         else
           case map_err (\<lambda>d. calculate_deadline_from_cit relativedelta now_year d cits fye_str)
                  (lf_tpd_deadlines country_data) of
             Inl e \<Rightarrow> Inl e
           | Inr lf \<Rightarrow>
              (case map_err (\<lambda>d. calculate_deadline_from_cit relativedelta now_year d cits fye_str)
                      (mf_deadlines country_data) of
                 Inl e \<Rightarrow> Inl e
               | Inr mf \<Rightarrow>
                  (case map_err (\<lambda>d. calculate_deadline_from_cit relativedelta now_year d cits fye_str)
                          (tp_forms country_data) of
                     Inl e \<Rightarrow> Inl e
                   | Inr fm \<Rightarrow>
                      (case cbcr country_data of
                         None \<Rightarrow>
                           Inr (country_data\<lparr>lf_tpd_deadlines := lf, mf_deadlines := mf, tp_forms := fm\<rparr>)
                       | Some n \<Rightarrow>
                           (case calculate_deadline_from_cit relativedelta now_year n cits fye_str of
                              Inl e \<Rightarrow> Inl e
                            | Inr n' \<Rightarrow>
                                Inr (country_data\<lparr>lf_tpd_deadlines := lf, mf_deadlines := mf,
                                                  tp_forms := fm, cbcr := Some n'\<rparr>))))))"

definition enhance :: "bool \<Rightarrow> int \<Rightarrow> string \<Rightarrow> country list \<Rightarrow> py_error + country list" where
  "enhance relativedelta now_year fye_str cs =
     (if relativedelta \<and> fye_str \<noteq> [] then map_err (enhance_country relativedelta now_year fye_str) cs
      else Inr cs)"

record compiled =
  doc_generated_at :: string
  doc_excel_source :: string
  doc_fye :: string
  doc_countries :: "country list"

definition SHEET_COUNTRY_REGIONS :: string where "SHEET_COUNTRY_REGIONS = ''0. Iso Codes''"
definition SHEET_LF_THRESHOLD :: string where "SHEET_LF_THRESHOLD = ''1.LFR Threshold''"
definition SHEET_LF_DEADLINES :: string where "SHEET_LF_DEADLINES = ''2. LFR Deadlines''"
definition SHEET_MF_THRESHOLD :: string where "SHEET_MF_THRESHOLD = ''3. MF_Thresholds''"
definition SHEET_MF_DEADLINES :: string where "SHEET_MF_DEADLINES = ''4. MF_Deadlines''"
definition SHEET_TP_FORMS :: string where "SHEET_TP_FORMS = ''5. TPForms_deadlines''"
definition SHEET_CBCR :: string where "SHEET_CBCR = ''6. CBCR Notifications''"
definition SHEET_CIT_DEADLINES :: string where "SHEET_CIT_DEADLINES = ''7. CIT Deadlines''"

definition empty_table :: table where
  "empty_table = \<lparr>columns = [], rows = []\<rparr>"

definition load_sheet :: "workbook \<Rightarrow> string \<Rightarrow> bool \<Rightarrow> py_error + table" where
  "load_sheet xls nm required =
     (case xls nm of
        None \<Rightarrow> if required then Inl ValueError else Inr empty_table
      | Some df \<Rightarrow> Inr (norm_cols df))"

text \<open>The first pass: every category loop, in the order of the source.\<close>

definition ingest_all ::
  "strmap \<Rightarrow> strmap \<Rightarrow> table \<Rightarrow> table \<Rightarrow> table \<Rightarrow> table \<Rightarrow> table \<Rightarrow> table \<Rightarrow> table \<Rightarrow> cstate" where
  "ingest_all name_to_region code_to_name df_lf_th df_lf_dl df_mf_th df_mf_dl df_forms df_cbcr df_cit =
     (let st0 = \<lparr>countries = [], unmatched = {}\<rparr>;
          st1 = ingest lf_threshold_body name_to_region code_to_name df_lf_th st0;
          st2 = ingest lf_deadline_body name_to_region code_to_name df_lf_dl st1;
          st3 = ingest mf_threshold_body name_to_region code_to_name df_mf_th st2;
          st4 = ingest mf_deadline_body name_to_region code_to_name df_mf_dl st3;
          st5 = ingest form_body name_to_region code_to_name df_forms st4;
          st6 = ingest cbcr_body name_to_region code_to_name df_cbcr st5
      in st6\<lparr>countries := fold (cit_row code_to_name) (rows df_cit) (countries st6)\<rparr>)"

definition country_sort_key :: "country \<Rightarrow> string \<times> string" where
  "country_sort_key x = (region x, lower (name x))"

text \<open>
  \<open>compile_rules\<close>.  \<open>relativedelta\<close> tells whether \<open>dateutil\<close> was imported, \<open>now_year\<close>
  and \<open>now_stamp\<close> are the year and the formatted time of \<open>datetime.now()\<close>.
\<close>

definition compile_rules ::
  "bool \<Rightarrow> int \<Rightarrow> string \<Rightarrow> workbook \<Rightarrow> string \<Rightarrow> string \<Rightarrow> py_error + compiled" where
  "compile_rules relativedelta now_year now_stamp xls excel_path fye_str =
     (case load_sheet xls SHEET_COUNTRY_REGIONS True of Inl e \<Rightarrow> Inl e | Inr df_countries \<Rightarrow>
      case load_sheet xls SHEET_LF_THRESHOLD True of Inl e \<Rightarrow> Inl e | Inr df_lf_th \<Rightarrow>
      case load_sheet xls SHEET_LF_DEADLINES True of Inl e \<Rightarrow> Inl e | Inr df_lf_dl \<Rightarrow>
      case load_sheet xls SHEET_MF_THRESHOLD True of Inl e \<Rightarrow> Inl e | Inr df_mf_th \<Rightarrow>
      case load_sheet xls SHEET_MF_DEADLINES True of Inl e \<Rightarrow> Inl e | Inr df_mf_dl \<Rightarrow>
      case load_sheet xls SHEET_TP_FORMS True of Inl e \<Rightarrow> Inl e | Inr df_forms \<Rightarrow>
      case load_sheet xls SHEET_CBCR True of Inl e \<Rightarrow> Inl e | Inr df_cbcr \<Rightarrow>
      case load_sheet xls SHEET_CIT_DEADLINES False of Inl e \<Rightarrow> Inl e | Inr df_cit \<Rightarrow>
      case load_country_map df_countries of Inl e \<Rightarrow> Inl e | Inr (name_to_region, code_to_name) \<Rightarrow>
        let st = ingest_all name_to_region code_to_name
                   df_lf_th df_lf_dl df_mf_th df_mf_dl df_forms df_cbcr df_cit;
            sorted_groups = map (\<lambda>(k, c). sort_groups c) (countries st)
        in case enhance relativedelta now_year fye_str sorted_groups of
             Inl e \<Rightarrow> Inl e
           | Inr cs \<Rightarrow>
               Inr \<lparr>doc_generated_at = now_stamp,
                    doc_excel_source = excel_path,
                    doc_fye = fye_str,
                    doc_countries = sort_key country_sort_key cs\<rparr>)"

section \<open>The earlier identity resolver (compile\_rules.py)\<close>

text \<open>
  The country record of the earlier compiler, with the element types of its lists left
  open, and its \<open>ensure_country\<close>.
\<close>

record ('t, 'd, 'f, 'n) country_v1 =
  v1_name :: string
  v1_iso2 :: string
  v1_region :: string
  v1_lf_tpd_thresholds :: "'t list"
  v1_lf_tpd_deadlines :: "'d list"
  v1_mf_thresholds :: "'t list"
  v1_mf_deadlines :: "'d list"
  v1_tp_forms :: "'f list"
  v1_cbcr :: "'n option"

definition ensure_country_v1 ::
  "(string \<times> ('t, 'd, 'f, 'n) country_v1) list \<Rightarrow> strmap \<Rightarrow> strmap \<Rightarrow> string
   \<Rightarrow> string option \<times> (string \<times> ('t, 'd, 'f, 'n) country_v1) list" where
  "ensure_country_v1 reg name_to_iso name_to_region j_name =
     (let key = lower (clean (CStr j_name))
      in if key = [] then (None, reg)
         else if name_to_iso key = None then (None, reg)
         else if map_of reg key = None then
           (Some key,
            reg @ [(key, \<lparr>v1_name = strip j_name, v1_iso2 = the (name_to_iso key),
                          v1_region = (case name_to_region key of None \<Rightarrow> '''' | Some x \<Rightarrow> x),
                          v1_lf_tpd_thresholds = [], v1_lf_tpd_deadlines = [],
                          v1_mf_thresholds = [], v1_mf_deadlines = [],
                          v1_tp_forms = [], v1_cbcr = None\<rparr>)])
         else (Some key, reg))"

section \<open>Predicates on the compiled document\<close>

text \<open>No deadline, form or notification record of the country has a calculated date.\<close>

definition no_calculated_date :: "country \<Rightarrow> bool" where
  "no_calculated_date c =
     (list_all (\<lambda>d. dl_calculated_date d = None) (lf_tpd_deadlines c)
      \<and> list_all (\<lambda>d. dl_calculated_date d = None) (mf_deadlines c)
      \<and> list_all (\<lambda>d. dl_calculated_date d = None) (tp_forms c)
      \<and> (case cbcr c of None \<Rightarrow> True | Some n \<Rightarrow> dl_calculated_date n = None))"

text \<open>
  A month is absent or between 1 and 12; a Month cell is blank or an integer between 1 and
  12; the rows of a sheet as the compiler loads them; the sheets whose rows carry a month.
\<close>

definition month_ok :: "int option \<Rightarrow> bool" where
  "month_ok m = (case m of None \<Rightarrow> True | Some n \<Rightarrow> 1 \<le> n \<and> n \<le> 12)"

definition months_in_range :: "country \<Rightarrow> bool" where
  "months_in_range c =
     (list_all (\<lambda>d. month_ok (dl_month d)) (lf_tpd_deadlines c)
      \<and> list_all (\<lambda>d. month_ok (dl_month d)) (mf_deadlines c)
      \<and> list_all (\<lambda>d. month_ok (dl_month d)) (tp_forms c)
      \<and> (case cbcr c of None \<Rightarrow> True | Some n \<Rightarrow> month_ok (dl_month n))
      \<and> list_all (\<lambda>d. month_ok (cit_month d)) (cit_deadlines c))"

definition month_cell_ok :: "cell \<Rightarrow> bool" where
  "month_cell_ok x =
     (case x of CMissing \<Rightarrow> True | CNaN \<Rightarrow> True | CStr s \<Rightarrow> False | CInt n \<Rightarrow> 1 \<le> n \<and> n \<le> 12)"

definition sheet_rows :: "workbook \<Rightarrow> string \<Rightarrow> row list" where
  "sheet_rows xls nm = (case xls nm of None \<Rightarrow> [] | Some df \<Rightarrow> rows (norm_cols df))"

definition month_sheets :: "string list" where
  "month_sheets =
     [SHEET_LF_DEADLINES, SHEET_MF_DEADLINES, SHEET_TP_FORMS, SHEET_CBCR, SHEET_CIT_DEADLINES]"

text \<open>The full name that \<open>ensure_country\<close> computes for a token, and the key of a row.\<close>

definition full_name_of :: "strmap \<Rightarrow> string \<Rightarrow> string" where
  "full_name_of code_to_name j =
     (let nm = clean (CStr j) in case code_to_name (upper nm) of None \<Rightarrow> nm | Some n \<Rightarrow> n)"

definition row_key :: "strmap \<Rightarrow> row \<Rightarrow> string option" where
  "row_key code_to_name r =
     (let j = clean (rget r ''Jurisdiction'')
      in if j = [] then None else Some (lower (full_name_of code_to_name j)))"


text \<open>The last row of a notification sheet that is filed under the key and qualifies.\<close>

definition last_cbcr_row :: "strmap \<Rightarrow> string \<Rightarrow> row list \<Rightarrow> row option" where
  "last_cbcr_row code_to_name k rs =
     (let qs = filter (\<lambda>r. row_key code_to_name r = Some k \<and> cbcr_qualifies r) rs
      in if qs = [] then None else Some (last qs))"


section \<open>Sample workbooks\<close>

text \<open>
  Small workbooks on which the compiler is run below: a country sheet with two countries,
  and the rows given for the local-file thresholds, the local-file deadlines, the
  notifications and the tax-filing deadlines; the other sheets are present and empty.
\<close>

definition sheet :: "row list \<Rightarrow> table" where
  "sheet rs = \<lparr>columns = remdups (concat (map (map fst) rs)), rows = rs\<rparr>"

definition iso_sheet :: table where
  "iso_sheet = sheet
     [[(''Country'', CStr ''Germany''), (''Code_3'', CStr ''DEU''), (''Region'', CStr ''Europe'')],
      [(''Country'', CStr ''Japan''), (''Code_3'', CStr ''JPN''), (''Region'', CStr ''asia'')]]"

definition workbook_of :: "row list \<Rightarrow> row list \<Rightarrow> row list \<Rightarrow> row list \<Rightarrow> workbook" where
  "workbook_of lf_th lf_dl cb ct =
     [SHEET_COUNTRY_REGIONS \<mapsto> iso_sheet,
      SHEET_LF_THRESHOLD \<mapsto> sheet lf_th,
      SHEET_LF_DEADLINES \<mapsto> sheet lf_dl,
      SHEET_MF_THRESHOLD \<mapsto> sheet [],
      SHEET_MF_DEADLINES \<mapsto> sheet [],
      SHEET_TP_FORMS \<mapsto> sheet [],
      SHEET_CBCR \<mapsto> sheet cb,
      SHEET_CIT_DEADLINES \<mapsto> sheet ct]"

definition compile_example :: "workbook \<Rightarrow> string \<Rightarrow> py_error + compiled" where
  "compile_example xls fye_str =
     compile_rules True 2026 ''2026-11-03 12:00'' xls ''Rule Tables.xlsx'' fye_str"

section \<open>Properties\<close>

lemma HARD_PAT_empty: "re_search True HARD_PAT [] = None"
  by code_simp

text \<open>
  Claim C6.  The classifier is a function of its text, so the same text always gets the same
  class; the class is \<open>HARD\<close>, \<open>SOFT\<close> or empty; and a text in which both the HARD pattern
  and the SOFT pattern are found is classified \<open>HARD\<close>.
\<close>

theorem classify_deadline_cases:
  "classify_deadline text \<in> {''HARD'', ''SOFT'', ''''} \<and>
   (re_search True HARD_PAT text \<noteq> None \<and> re_search True SOFT_PAT text \<noteq> None
      \<longrightarrow> classify_deadline text = ''HARD'')"
proof (cases "text = []")
  case True
  then show ?thesis using HARD_PAT_empty by (simp add: classify_deadline_def)
next
  case False
  then show ?thesis by (simp add: classify_deadline_def Let_def)
qed

theorem classify_deadline_cases_witness:
  "re_search True HARD_PAT ''Submit upon request'' \<noteq> None \<and>
   re_search True SOFT_PAT ''Submit upon request'' \<noteq> None \<and>
   classify_deadline ''Submit upon request'' = ''HARD''"
proof -
  have h: "re_search True HARD_PAT ''Submit upon request'' \<noteq> None" by code_simp
  have s: "re_search True SOFT_PAT ''Submit upon request'' \<noteq> None" by code_simp
  from classify_deadline_cases [of "''Submit upon request''"] h s show ?thesis by blast
qed

text \<open>
  Claim C7.  A text that contains "upon request" or "not applicable", in any letter case,
  has no month, whatever else it contains and whatever fiscal year-end is supplied.
\<close>

theorem month_from_text_undated:
  "contains (lower text) ''upon request'' \<or> contains (lower text) ''not applicable''
   \<Longrightarrow> month_from_text text fye_str = Inr None"
  by (simp add: month_from_text_def Let_def)

theorem month_from_text_undated_witness:
  "contains (lower ''Upon Request, by 31 March (3 months after year-end)'') ''upon request'' \<and>
   month_from_text ''Upon Request, by 31 March (3 months after year-end)'' ''2025-12-31'' = Inr None"
proof -
  have h: "contains (lower ''Upon Request, by 31 March (3 months after year-end)'') ''upon request''"
    by code_simp
  from h month_from_text_undated [of "''Upon Request, by 31 March (3 months after year-end)''" "''2025-12-31''"]
  show ?thesis by blast
qed



lemma strptime_2024: "strptime_ymd ''2024-12-31'' = Some \<lparr>year = 2024, month = 12, day = 31\<rparr>"
  by code_simp

lemma datetime_2025_03_31: "datetime_checked (2024 + 1) 3 31 = Inr (Some \<lparr>year = 2025, month = 3, day = 31\<rparr>)"
  by code_simp

lemma strftime_2025_03_31: "strftime_ymd \<lparr>year = 2025, month = 3, day = 31\<rparr> = ''2025-03-31''"
  by code_simp

lemma cit_date_fixed_2024:
  assumes "upper (cit_deadline_kind c) = ''FIXED_DATE''" "cit_month c = Some 3" "cit_day c = Some 31"
  shows "cit_date_of now_year c ''2024-12-31'' = Inr (Some \<lparr>year = 2025, month = 3, day = 31\<rparr>)"
  using assms strptime_2024 datetime_2025_03_31 by (simp add: cit_date_of_def)

text \<open>
  Claim C4.  When the first tax-filing record of a country is of fixed-date kind with
  month 3 and day 31 and the fiscal year-end is 2024-12-31, a deadline anchored to the tax
  return whose offsets are zero or absent gets the calculated date 2025-03-31: the year is
  the one after the fiscal year-end, and the date is that of the tax filing itself.
\<close>

theorem calculate_fixed_date_zero_offset:
  assumes kind: "upper (cit_deadline_kind c) = ''FIXED_DATE''"
    and m: "cit_month c = Some 3"
    and d: "cit_day c = Some 31"
    and anchored: "is_tax_return_based dl"
    and om: "dl_offset_months dl = Some 0 \<or> dl_offset_months dl = None"
    and od: "dl_offset_days dl = Some 0 \<or> dl_offset_days dl = None"
  shows "calculate_deadline_from_cit True now_year dl (c # cs) ''2024-12-31''
           = Inr (with_calculated dl \<lparr>year = 2025, month = 3, day = 31\<rparr>
                    ''Due with tax return (March 31, 2025)'')
         \<and> dl_calculated_date (with_calculated dl \<lparr>year = 2025, month = 3, day = 31\<rparr>
                    ''Due with tax return (March 31, 2025)'') = Some ''2025-03-31''"
proof -
  have long: "strftime_long \<lparr>year = 2025, month = 3, day = 31\<rparr> = ''March 31, 2025''"
    by code_simp
  have offs: "or0 (dl_offset_months dl) = 0" "or0 (dl_offset_days dl) = 0"
    using om od by (auto simp: or0_def)
  have "calculate_deadline_from_cit True now_year dl (c # cs) ''2024-12-31''
          = Inr (with_calculated dl \<lparr>year = 2025, month = 3, day = 31\<rparr>
                   (''Due with tax return ('' @ strftime_long \<lparr>year = 2025, month = 3, day = 31\<rparr> @ '')''))"
    using anchored offs cit_date_fixed_2024 [OF kind m d]
    by (simp add: calculate_deadline_from_cit_def)
  then show ?thesis
    using long strftime_2025_03_31 by (simp add: with_calculated_def)
qed

theorem calculate_fixed_date_zero_offset_witness:
  "map_sum id dl_calculated_date
     (calculate_deadline_from_cit True 2026
        (pack_deadline_row [(''GroupID'', CStr ''G1''), (''Seq'', CInt 1),
           (''DeadlineKind'', CStr ''RETURN_DUE_DATE''), (''OffsetMonths'', CInt 0)])
        [pack_cit_row [(''DeadlineKind'', CStr ''FIXED_DATE''), (''Month'', CInt 3), (''Day'', CInt 31)]]
        ''2024-12-31'')
   = Inr (Some ''2025-03-31'')"
proof -
  let ?dl = "pack_deadline_row [(''GroupID'', CStr ''G1''), (''Seq'', CInt 1),
           (''DeadlineKind'', CStr ''RETURN_DUE_DATE''), (''OffsetMonths'', CInt 0)]"
  let ?c = "pack_cit_row [(''DeadlineKind'', CStr ''FIXED_DATE''), (''Month'', CInt 3), (''Day'', CInt 31)]"
  have 1: "upper (cit_deadline_kind ?c) = ''FIXED_DATE''" by code_simp
  have 2: "cit_month ?c = Some 3" by code_simp
  have 3: "cit_day ?c = Some 31" by code_simp
  have 4: "is_tax_return_based ?dl" by code_simp
  have 5: "dl_offset_months ?dl = Some 0 \<or> dl_offset_months ?dl = None" by code_simp
  have 6: "dl_offset_days ?dl = Some 0 \<or> dl_offset_days ?dl = None" by code_simp
  from calculate_fixed_date_zero_offset [OF 1 2 3 4 5 6, of 2026 "[]"]
  show ?thesis by simp
qed

text \<open>
  Claim C1.  The resolver of compile\_rules2.py does not leave an unrecognized token
  without a record: the token "Atlantis", neither a code nor a name of the country sheet,
  gets a country of that name with an empty region in the compiled document.
\<close>

theorem ensure_country_unknown_token:
  "map_sum id (map (\<lambda>c. (name c, region c)) \<circ> doc_countries)
     (compile_example (workbook_of [[(''Jurisdiction'', CStr ''Atlantis'')]] [] [] []) '''')
   = Inr [(''Atlantis'', '''')]"
  by code_simp

text \<open>
  In compile\_rules2.py only the empty token has no record, so only the empty token can
  reach the set of unmatched tokens; the resolver of compile\_rules.py does return
  \<open>None\<close> for a name that the country table does not know.
\<close>

lemma ensure_country_nonempty:
  "j \<noteq> [] \<Longrightarrow> fst (ensure_country reg j n2r c2n) \<noteq> None"
  by (simp add: ensure_country_def Let_def)

lemma ensure_country_v1_unknown:
  "name_to_iso (lower (clean (CStr j))) = None \<Longrightarrow> ensure_country_v1 reg name_to_iso n2r j = (None, reg)"
  by (simp add: ensure_country_v1_def Let_def)

lemma compile_rules_Inr:
  assumes "compile_rules rd ny stamp xls path fye_str = Inr doc"
  obtains df_countries df_lf_th df_lf_dl df_mf_th df_mf_dl df_forms df_cbcr df_cit n2r c2n cs
  where "load_sheet xls SHEET_COUNTRY_REGIONS True = Inr df_countries"
    and "load_sheet xls SHEET_LF_THRESHOLD True = Inr df_lf_th"
    and "load_sheet xls SHEET_LF_DEADLINES True = Inr df_lf_dl"
    and "load_sheet xls SHEET_MF_THRESHOLD True = Inr df_mf_th"
    and "load_sheet xls SHEET_MF_DEADLINES True = Inr df_mf_dl"
    and "load_sheet xls SHEET_TP_FORMS True = Inr df_forms"
    and "load_sheet xls SHEET_CBCR True = Inr df_cbcr"
    and "load_sheet xls SHEET_CIT_DEADLINES False = Inr df_cit"
    and "load_country_map df_countries = Inr (n2r, c2n)"
    and "enhance rd ny fye_str
           (map (\<lambda>(k, c). sort_groups c)
              (countries (ingest_all n2r c2n df_lf_th df_lf_dl df_mf_th df_mf_dl df_forms df_cbcr df_cit)))
         = Inr cs"
    and "doc = \<lparr>doc_generated_at = stamp, doc_excel_source = path, doc_fye = fye_str,
                doc_countries = sort_key country_sort_key cs\<rparr>"
  using assms unfolding compile_rules_def
  by (auto split: sum.splits prod.splits simp: Let_def)

text \<open>
  Claim C9, as amended.  The countries of the compiled document are in ascending order of
  the key (region, lowercased name): the name is compared without regard to case, the
  region as it is written.
\<close>

theorem countries_sorted:
  assumes "compile_rules rd ny stamp xls path fye_str = Inr doc"
  shows "sorted (map country_sort_key (doc_countries doc))"
  using assms by (elim compile_rules_Inr) (simp add: sorted_sort_key)

text \<open>
  With the regions "Europe" and "asia" the document lists Germany before Japan, although
  without regard to case the key of Germany is the greater one.
\<close>

theorem countries_sorted_counterexample:
  "map_sum id (map (\<lambda>c. (region c, name c)) \<circ> doc_countries)
     (compile_example (workbook_of [] [[(''Jurisdiction'', CStr ''Japan'')], [(''Jurisdiction'', CStr ''Germany'')]] [] []) '''')
   = Inr [(''Europe'', ''Germany''), (''asia'', ''Japan'')]
   \<and> \<not> ((lower ''Europe'', lower ''Germany'') \<le> (lower ''asia'', lower ''Japan''))"
  by code_simp

theorem countries_sorted_witness:
  "sorted (map country_sort_key (doc_countries (projr
     (compile_example (workbook_of [] [[(''Jurisdiction'', CStr ''Japan'')], [(''Jurisdiction'', CStr ''Germany'')]] [] []) ''''))))"
proof -
  let ?r = "compile_example (workbook_of [] [[(''Jurisdiction'', CStr ''Japan'')], [(''Jurisdiction'', CStr ''Germany'')]] [] []) ''''"
  have "\<not> isl ?r" by code_simp
  then have "?r = Inr (projr ?r)" by simp
  then have "compile_rules True 2026 ''2026-11-03 12:00''
      (workbook_of [] [[(''Jurisdiction'', CStr ''Japan'')], [(''Jurisdiction'', CStr ''Germany'')]] [] [])
      ''Rule Tables.xlsx'' '''' = Inr (projr ?r)"
    by (simp add: compile_example_def)
  from countries_sorted [OF this] show ?thesis .
qed

lemma map_entry_in:
  "(k', c') \<in> set (AList.map_entry k f xs) \<Longrightarrow> \<exists>c. (k', c) \<in> set xs \<and> (c' = c \<or> c' = f c)"
  by (induction xs) (auto split: if_splits)

lemma ensure_country_cases:
  assumes "ensure_country reg j n2r c2n = (ko, reg')"
  shows "reg' = reg \<or> (\<exists>key nm rg. ko = Some key \<and> map_of reg key = None
            \<and> key = lower nm \<and> reg' = reg @ [(key, new_country nm rg)])"
  using assms by (auto simp: ensure_country_def Let_def split: if_splits)

lemma ingest_row_pres:
  assumes inv: "\<forall>(k, c) \<in> set (countries st). P c"
    and body: "\<And>c. P c \<Longrightarrow> P (body r c)"
    and new: "\<And>nm rg. P (new_country nm rg)"
  shows "\<forall>(k, c) \<in> set (countries (ingest_row body n2r c2n r st)). P c"
proof -
  obtain ko reg' where e: "ensure_country (countries st) (clean (rget r ''Jurisdiction'')) n2r c2n = (ko, reg')"
    by (cases "ensure_country (countries st) (clean (rget r ''Jurisdiction'')) n2r c2n")
  from ensure_country_cases [OF e] inv new
  have reg': "\<forall>(k, c) \<in> set reg'. P c" by auto
  show ?thesis
  proof (cases ko)
    case None
    with e reg' show ?thesis by (simp add: ingest_row_def)
  next
    case (Some key)
    have "\<forall>(k, c) \<in> set (AList.map_entry key (body r) reg'). P c"
      using reg' body by (auto dest!: map_entry_in)
    with e Some show ?thesis by (simp add: ingest_row_def)
  qed
qed

lemma fold_ingest_row_pres:
  assumes "\<forall>(k, c) \<in> set (countries st). P c"
    and "\<And>r c. r \<in> set rs \<Longrightarrow> P c \<Longrightarrow> P (body r c)"
    and "\<And>nm rg. P (new_country nm rg)"
  shows "\<forall>(k, c) \<in> set (countries (fold (ingest_row body n2r c2n) rs st)). P c"
  using assms
proof (induction rs arbitrary: st)
  case Nil
  then show ?case by simp
next
  case (Cons r rs)
  have "\<forall>(k, c) \<in> set (countries (ingest_row body n2r c2n r st)). P c"
    by (rule ingest_row_pres) (use Cons.prems in auto)
  then show ?case using Cons.prems by (simp add: Cons.IH)
qed

lemma ingest_pres:
  assumes "\<forall>(k, c) \<in> set (countries st). P c"
    and "\<And>r c. r \<in> set (rows df) \<Longrightarrow> P c \<Longrightarrow> P (body r c)"
    and "\<And>nm rg. P (new_country nm rg)"
  shows "\<forall>(k, c) \<in> set (countries (ingest body n2r c2n df st)). P c"
  unfolding ingest_def by (rule fold_ingest_row_pres) (use assms in auto)

lemma cit_row_pres:
  assumes "\<forall>(k, c) \<in> set reg. P c"
    and "\<And>c. P c \<Longrightarrow> P (c\<lparr>cit_deadlines := cit_deadlines c @ [pack_cit_row r]\<rparr>)"
  shows "\<forall>(k, c) \<in> set (cit_row c2n r reg). P c"
  using assms by (auto simp: cit_row_def Let_def split: option.splits dest!: map_entry_in)

lemma fold_cit_row_pres:
  assumes "\<forall>(k, c) \<in> set reg. P c"
    and "\<And>r c. r \<in> set rs \<Longrightarrow> P c \<Longrightarrow> P (c\<lparr>cit_deadlines := cit_deadlines c @ [pack_cit_row r]\<rparr>)"
  shows "\<forall>(k, c) \<in> set (fold (cit_row c2n) rs reg). P c"
  using assms
proof (induction rs arbitrary: reg)
  case Nil
  then show ?case by simp
next
  case (Cons r rs)
  have "\<forall>(k, c) \<in> set (cit_row c2n r reg). P c"
    by (rule cit_row_pres) (use Cons.prems in auto)
  then show ?case using Cons.prems by (simp add: Cons.IH)
qed

lemma ingest_all_pres:
  assumes new: "\<And>nm rg. P (new_country nm rg)"
    and b1: "\<And>r c. r \<in> set (rows df_lf_th) \<Longrightarrow> P c \<Longrightarrow> P (lf_threshold_body r c)"
    and b2: "\<And>r c. r \<in> set (rows df_lf_dl) \<Longrightarrow> P c \<Longrightarrow> P (lf_deadline_body r c)"
    and b3: "\<And>r c. r \<in> set (rows df_mf_th) \<Longrightarrow> P c \<Longrightarrow> P (mf_threshold_body r c)"
    and b4: "\<And>r c. r \<in> set (rows df_mf_dl) \<Longrightarrow> P c \<Longrightarrow> P (mf_deadline_body r c)"
    and b5: "\<And>r c. r \<in> set (rows df_forms) \<Longrightarrow> P c \<Longrightarrow> P (form_body r c)"
    and b6: "\<And>r c. r \<in> set (rows df_cbcr) \<Longrightarrow> P c \<Longrightarrow> P (cbcr_body r c)"
    and b7: "\<And>r c. r \<in> set (rows df_cit) \<Longrightarrow> P c
               \<Longrightarrow> P (c\<lparr>cit_deadlines := cit_deadlines c @ [pack_cit_row r]\<rparr>)"
  shows "\<forall>(k, c) \<in> set (countries (ingest_all n2r c2n df_lf_th df_lf_dl df_mf_th df_mf_dl
                                        df_forms df_cbcr df_cit)). P c"
proof -
  let ?st0 = "\<lparr>countries = [], unmatched = {}\<rparr>"
  let ?st1 = "ingest lf_threshold_body n2r c2n df_lf_th ?st0"
  let ?st2 = "ingest lf_deadline_body n2r c2n df_lf_dl ?st1"
  let ?st3 = "ingest mf_threshold_body n2r c2n df_mf_th ?st2"
  let ?st4 = "ingest mf_deadline_body n2r c2n df_mf_dl ?st3"
  let ?st5 = "ingest form_body n2r c2n df_forms ?st4"
  let ?st6 = "ingest cbcr_body n2r c2n df_cbcr ?st5"
  have 0: "\<forall>(k, c) \<in> set (countries ?st0). P c" by simp
  have 1: "\<forall>(k, c) \<in> set (countries ?st1). P c" by (rule ingest_pres [OF 0 b1 new])
  have 2: "\<forall>(k, c) \<in> set (countries ?st2). P c" by (rule ingest_pres [OF 1 b2 new])
  have 3: "\<forall>(k, c) \<in> set (countries ?st3). P c" by (rule ingest_pres [OF 2 b3 new])
  have 4: "\<forall>(k, c) \<in> set (countries ?st4). P c" by (rule ingest_pres [OF 3 b4 new])
  have 5: "\<forall>(k, c) \<in> set (countries ?st5). P c" by (rule ingest_pres [OF 4 b5 new])
  have 6: "\<forall>(k, c) \<in> set (countries ?st6). P c" by (rule ingest_pres [OF 5 b6 new])
  have "\<forall>(k, c) \<in> set (fold (cit_row c2n) (rows df_cit) (countries ?st6)). P c"
    by (rule fold_cit_row_pres [OF 6 b7])
  then show ?thesis by (simp add: ingest_all_def Let_def)
qed

lemma pack_deadline_row_no_date: "dl_calculated_date (pack_deadline_row r) = None"
  by (simp add: pack_deadline_row_def anchored_of_row_def Let_def)

lemma pack_form_row_no_date: "dl_calculated_date (pack_form_row r) = None"
  by (simp add: pack_form_row_def deadline.defs pack_deadline_row_no_date)

lemma pack_cbcr_row_no_date: "dl_calculated_date (pack_cbcr_row r) = None"
  by (simp add: pack_cbcr_row_def anchored_of_row_def Let_def)

lemma no_calculated_date_new: "no_calculated_date (new_country nm rg)"
  by (simp add: no_calculated_date_def new_country_def)

lemma no_calculated_date_bodies:
  assumes "no_calculated_date c"
  shows "no_calculated_date (lf_threshold_body r c)"
    and "no_calculated_date (lf_deadline_body r c)"
    and "no_calculated_date (mf_threshold_body r c)"
    and "no_calculated_date (mf_deadline_body r c)"
    and "no_calculated_date (form_body r c)"
    and "no_calculated_date (cbcr_body r c)"
    and "no_calculated_date (c\<lparr>cit_deadlines := cit_deadlines c @ [pack_cit_row r]\<rparr>)"
  using assms
  by (simp_all add: no_calculated_date_def lf_threshold_body_def lf_deadline_body_def
        mf_threshold_body_def mf_deadline_body_def form_body_def cbcr_body_def Let_def
        pack_deadline_row_no_date pack_form_row_no_date pack_cbcr_row_no_date)

lemma no_calculated_date_sort_groups:
  "no_calculated_date c \<Longrightarrow> no_calculated_date (sort_groups c)"
  by (simp add: no_calculated_date_def sort_groups_def list_all_iff)

text \<open>
  Claim C5.  When compilation is given no fiscal year-end (the empty string), no deadline,
  form or notification record of the compiled document has a calculated date, whatever
  the sheets of the workbook contain.
\<close>

theorem no_fye_no_calculated_date:
  assumes "compile_rules rd ny stamp xls path [] = Inr doc"
  shows "list_all no_calculated_date (doc_countries doc)"
proof -
  from assms obtain df_lf_th df_lf_dl df_mf_th df_mf_dl df_forms df_cbcr df_cit n2r c2n cs
    where enh: "enhance rd ny []
           (map (\<lambda>(k, c). sort_groups c)
              (countries (ingest_all n2r c2n df_lf_th df_lf_dl df_mf_th df_mf_dl df_forms df_cbcr df_cit)))
         = Inr cs"
      and doc: "doc = \<lparr>doc_generated_at = stamp, doc_excel_source = path, doc_fye = [],
                doc_countries = sort_key country_sort_key cs\<rparr>"
    by (elim compile_rules_Inr)
  let ?reg = "countries (ingest_all n2r c2n df_lf_th df_lf_dl df_mf_th df_mf_dl df_forms df_cbcr df_cit)"
  have reg: "\<forall>(k, c) \<in> set ?reg. no_calculated_date c"
    by (rule ingest_all_pres) (simp_all add: no_calculated_date_new no_calculated_date_bodies)
  from enh have cs: "cs = map (\<lambda>(k, c). sort_groups c) ?reg"
    by (simp add: enhance_def)
  have "\<forall>c \<in> set cs. no_calculated_date c"
    unfolding cs using reg by (auto intro: no_calculated_date_sort_groups)
  then show ?thesis using doc by (simp add: list_all_iff)
qed

theorem no_fye_no_calculated_date_witness:
  "list_all no_calculated_date (doc_countries (projr
     (compile_example
        (workbook_of [] [[(''Jurisdiction'', CStr ''DEU''), (''DeadlineKind'', CStr ''RETURN_DUE_DATE'')]] []
           [[(''Jurisdiction (3-letter code)'', CStr ''DEU''), (''DeadlineKind'', CStr ''FIXED_DATE''),
             (''Month'', CInt 3), (''Day'', CInt 31)]])
        '''')))"
proof -
  let ?wb = "workbook_of [] [[(''Jurisdiction'', CStr ''DEU''), (''DeadlineKind'', CStr ''RETURN_DUE_DATE'')]] []
           [[(''Jurisdiction (3-letter code)'', CStr ''DEU''), (''DeadlineKind'', CStr ''FIXED_DATE''),
             (''Month'', CInt 3), (''Day'', CInt 31)]]"
  have "\<not> isl (compile_example ?wb '''')" by code_simp
  then have "compile_example ?wb '''' = Inr (projr (compile_example ?wb ''''))" by simp
  then have "compile_rules True 2026 ''2026-11-03 12:00'' ?wb ''Rule Tables.xlsx'' ''''
               = Inr (projr (compile_example ?wb ''''))"
    by (simp add: compile_example_def)
  from no_fye_no_calculated_date [OF this] show ?thesis .
qed

text \<open>With the fiscal year-end 2024-12-31 the same workbook does get a calculated date.\<close>

lemma with_fye_calculated_date:
  "map_sum id (map (map dl_calculated_date \<circ> lf_tpd_deadlines) \<circ> doc_countries)
     (compile_example
        (workbook_of [] [[(''Jurisdiction'', CStr ''DEU''), (''DeadlineKind'', CStr ''RETURN_DUE_DATE'')]] []
           [[(''Jurisdiction (3-letter code)'', CStr ''DEU''), (''DeadlineKind'', CStr ''FIXED_DATE''),
             (''Month'', CInt 3), (''Day'', CInt 31)]])
        ''2024-12-31'')
   = Inr [[Some ''2025-03-31'']]"
  by code_simp

text \<open>
  A Month cell holding the integer 13 reaches the compiled document unchanged.
\<close>

theorem deadline_month_counterexample:
  "map_sum id (map (map dl_month \<circ> lf_tpd_deadlines) \<circ> doc_countries)
     (compile_example (workbook_of [] [[(''Jurisdiction'', CStr ''Germany''), (''Month'', CInt 13)]] [] []) '''')
   = Inr [[Some 13]]"
  by code_simp

lemma as_int_CInt: "abs n \<le> 2 ^ 53 \<Longrightarrow> as_int (CInt n) = Some n"
  by (simp add: as_int_def float_of_cell_def float_of_int_def int_of_float_def)

lemma as_int_blank: "as_int CNaN = None" "as_int CMissing = None"
  by (simp_all add: as_int_def float_of_cell_def)

lemma as_int_month_cell: "month_cell_ok x \<Longrightarrow> month_ok (as_int x)"
  by (cases x)
     (auto simp: month_cell_ok_def month_ok_def as_int_def float_of_cell_def float_of_int_def
        int_of_float_def)

lemma pack_months:
  assumes "month_cell_ok (rget r ''Month'')"
  shows "month_ok (dl_month (pack_deadline_row r))"
    and "month_ok (dl_month (pack_form_row r))"
    and "month_ok (dl_month (pack_cbcr_row r))"
    and "month_ok (cit_month (pack_cit_row r))"
  using as_int_month_cell [OF assms]
  by (simp_all add: pack_deadline_row_def pack_form_row_def pack_cbcr_row_def pack_cit_row_def
        anchored_of_row_def deadline.defs Let_def)

lemma months_in_range_new: "months_in_range (new_country nm rg)"
  by (simp add: months_in_range_def new_country_def)

lemma months_in_range_bodies:
  assumes "months_in_range c" and "month_cell_ok (rget r ''Month'')"
  shows "months_in_range (lf_deadline_body r c)"
    and "months_in_range (mf_deadline_body r c)"
    and "months_in_range (form_body r c)"
    and "months_in_range (cbcr_body r c)"
    and "months_in_range (c\<lparr>cit_deadlines := cit_deadlines c @ [pack_cit_row r]\<rparr>)"
  using assms(1) pack_months [OF assms(2)]
  by (simp_all add: months_in_range_def lf_deadline_body_def mf_deadline_body_def form_body_def
        cbcr_body_def Let_def)

lemma months_in_range_threshold_bodies:
  assumes "months_in_range c"
  shows "months_in_range (lf_threshold_body r c)"
    and "months_in_range (mf_threshold_body r c)"
  using assms
  by (simp_all add: months_in_range_def lf_threshold_body_def mf_threshold_body_def Let_def)

lemma months_in_range_sort_groups:
  "months_in_range c \<Longrightarrow> months_in_range (sort_groups c)"
  by (simp add: months_in_range_def sort_groups_def list_all_iff)

lemma foldl_pick: "foldl (\<lambda>acc m. if Q m then m else acc) a xs \<in> insert a (set xs)"
  by (induction xs arbitrary: a) auto

lemma month_of_yday_range: "1 \<le> month_of_yday y k \<and> month_of_yday y k \<le> 12"
proof -
  have "month_of_yday y k \<in> insert 1 (set [1 .. 12])"
    unfolding month_of_yday_def by (rule foldl_pick)
  then show ?thesis by auto
qed

lemma fromordinal_month: "1 \<le> month (fromordinal n) \<and> month (fromordinal n) \<le> 12"
  using month_of_yday_range by (simp add: fromordinal_def Let_def)

lemma datetime_month: "datetime y m d = Some dt \<Longrightarrow> 1 \<le> month dt \<and> month dt \<le> 12"
  by (auto simp: datetime_def split: if_splits)

lemma add_relativedelta_month:
  "add_relativedelta dt ms ds = Inr dt' \<Longrightarrow> 1 \<le> month dt' \<and> month dt' \<le> 12"
  using fromordinal_month
  by (auto simp: add_relativedelta_def Let_def split: if_splits prod.splits)

lemma cit_date_of_month:
  "cit_date_of ny c fye_str = Inr (Some dt) \<Longrightarrow> 1 \<le> month dt \<and> month dt \<le> 12"
  by (auto simp: cit_date_of_def datetime_checked_def Let_def
        split: if_splits option.splits sum.splits
        dest: datetime_month add_relativedelta_month)

lemma calculate_month_ok:
  assumes "calculate_deadline_from_cit rd ny d cits fye_str = Inr d'" and "month_ok (dl_month d)"
  shows "month_ok (dl_month d')"
  using assms
  by (auto simp: calculate_deadline_from_cit_def with_calculated_def month_ok_def Let_def
        split: list.splits if_splits sum.splits option.splits
        dest: cit_date_of_month add_relativedelta_month)

lemma map_err_Inr:
  "map_err f xs = Inr ys \<Longrightarrow> list_all2 (\<lambda>x y. f x = Inr y) xs ys"
  by (induction xs arbitrary: ys) (auto split: sum.splits)

lemma map_err_pres:
  assumes "map_err f xs = Inr ys" and "list_all Q xs" and "\<And>x y. f x = Inr y \<Longrightarrow> Q x \<Longrightarrow> Q' y"
  shows "list_all Q' ys"
  using map_err_Inr [OF assms(1)] assms(2,3)
  by (induction xs ys rule: list_all2_induct) auto

lemma map_err_calc_months:
  assumes "map_err (\<lambda>d. calculate_deadline_from_cit rd ny d cits fye_str) xs = Inr ys"
    and "list_all (\<lambda>d. month_ok (dl_month d)) xs"
  shows "list_all (\<lambda>d. month_ok (dl_month d)) ys"
  using assms(1) assms(2) calculate_month_ok
  by (rule map_err_pres)

lemma enhance_country_months:
  assumes "enhance_country rd ny fye_str c = Inr c'" and "months_in_range c"
  shows "months_in_range c'"
proof (cases "cit_deadlines c = []")
  case True
  with assms show ?thesis by (simp add: enhance_country_def)
next
  case False
  let ?calc = "\<lambda>d. calculate_deadline_from_cit rd ny d (cit_deadlines c) fye_str"
  from assms(1) False obtain lf mf fm where
    lf: "map_err ?calc (lf_tpd_deadlines c) = Inr lf" and
    mf: "map_err ?calc (mf_deadlines c) = Inr mf" and
    fm: "map_err ?calc (tp_forms c) = Inr fm" and
    c': "(cbcr c = None \<and> c' = c\<lparr>lf_tpd_deadlines := lf, mf_deadlines := mf, tp_forms := fm\<rparr>)
         \<or> (\<exists>n n'. cbcr c = Some n \<and> ?calc n = Inr n'
               \<and> c' = c\<lparr>lf_tpd_deadlines := lf, mf_deadlines := mf, tp_forms := fm, cbcr := Some n'\<rparr>)"
    by (auto simp: enhance_country_def Let_def split: sum.splits option.splits)
  have 1: "list_all (\<lambda>d. month_ok (dl_month d)) lf"
    using map_err_calc_months [OF lf] assms(2) by (simp add: months_in_range_def)
  have 2: "list_all (\<lambda>d. month_ok (dl_month d)) mf"
    using map_err_calc_months [OF mf] assms(2) by (simp add: months_in_range_def)
  have 3: "list_all (\<lambda>d. month_ok (dl_month d)) fm"
    using map_err_calc_months [OF fm] assms(2) by (simp add: months_in_range_def)
  from c' show ?thesis
    using 1 2 3 assms(2) by (auto simp: months_in_range_def dest: calculate_month_ok)
qed

lemma enhance_pres:
  assumes "enhance rd ny fye_str cs = Inr cs'" and "list_all Q cs"
    and "\<And>c c'. enhance_country rd ny fye_str c = Inr c' \<Longrightarrow> Q c \<Longrightarrow> Q c'"
  shows "list_all Q cs'"
proof (cases "rd \<and> fye_str \<noteq> []")
  case True
  with assms(1) have "map_err (enhance_country rd ny fye_str) cs = Inr cs'"
    by (simp add: enhance_def)
  from map_err_pres [OF this assms(2)] assms(3) show ?thesis by blast
next
  case False
  with assms(1,2) show ?thesis by (auto simp: enhance_def)
qed

lemma load_sheet_rows:
  "load_sheet xls nm req = Inr df \<Longrightarrow> rows df = sheet_rows xls nm"
  by (auto simp: load_sheet_def sheet_rows_def empty_table_def split: option.splits if_splits)

text \<open>
  Claim C3, as amended.  When every Month cell of the deadline-bearing sheets is blank or
  an integer between 1 and 12, every deadline, form, notification and tax-filing record of
  the compiled document has a month that is null or between 1 and 12.  The packers copy an
  integer Month as it is, so a value outside 1 to 12 is not excluded otherwise.
\<close>

theorem deadline_months_in_range:
  assumes ok: "compile_rules rd ny stamp xls path fye_str = Inr doc"
    and cells: "\<forall>nm \<in> set month_sheets. \<forall>r \<in> set (sheet_rows xls nm). month_cell_ok (rget r ''Month'')"
  shows "list_all months_in_range (doc_countries doc)"
proof -
  from ok obtain df_lf_th df_lf_dl df_mf_th df_mf_dl df_forms df_cbcr df_cit n2r c2n cs
    where l2: "load_sheet xls SHEET_LF_DEADLINES True = Inr df_lf_dl"
      and l4: "load_sheet xls SHEET_MF_DEADLINES True = Inr df_mf_dl"
      and l5: "load_sheet xls SHEET_TP_FORMS True = Inr df_forms"
      and l6: "load_sheet xls SHEET_CBCR True = Inr df_cbcr"
      and l7: "load_sheet xls SHEET_CIT_DEADLINES False = Inr df_cit"
      and enh: "enhance rd ny fye_str
           (map (\<lambda>(k, c). sort_groups c)
              (countries (ingest_all n2r c2n df_lf_th df_lf_dl df_mf_th df_mf_dl df_forms df_cbcr df_cit)))
         = Inr cs"
      and doc: "doc = \<lparr>doc_generated_at = stamp, doc_excel_source = path, doc_fye = fye_str,
                doc_countries = sort_key country_sort_key cs\<rparr>"
    by (elim compile_rules_Inr)
  let ?reg = "countries (ingest_all n2r c2n df_lf_th df_lf_dl df_mf_th df_mf_dl df_forms df_cbcr df_cit)"
  have r2: "\<And>r. r \<in> set (rows df_lf_dl) \<Longrightarrow> month_cell_ok (rget r ''Month'')"
    using cells load_sheet_rows [OF l2] by (simp add: month_sheets_def)
  have r4: "\<And>r. r \<in> set (rows df_mf_dl) \<Longrightarrow> month_cell_ok (rget r ''Month'')"
    using cells load_sheet_rows [OF l4] by (simp add: month_sheets_def)
  have r5: "\<And>r. r \<in> set (rows df_forms) \<Longrightarrow> month_cell_ok (rget r ''Month'')"
    using cells load_sheet_rows [OF l5] by (simp add: month_sheets_def)
  have r6: "\<And>r. r \<in> set (rows df_cbcr) \<Longrightarrow> month_cell_ok (rget r ''Month'')"
    using cells load_sheet_rows [OF l6] by (simp add: month_sheets_def)
  have r7: "\<And>r. r \<in> set (rows df_cit) \<Longrightarrow> month_cell_ok (rget r ''Month'')"
    using cells load_sheet_rows [OF l7] by (simp add: month_sheets_def)
  have reg: "\<forall>(k, c) \<in> set ?reg. months_in_range c"
    by (rule ingest_all_pres)
       (simp_all add: months_in_range_new months_in_range_bodies months_in_range_threshold_bodies
          r2 r4 r5 r6 r7)
  have "list_all months_in_range (map (\<lambda>(k, c). sort_groups c) ?reg)"
    using reg by (auto simp: list_all_iff intro: months_in_range_sort_groups)
  from enhance_pres [OF enh this] have "list_all months_in_range cs"
    using enhance_country_months by blast
  then show ?thesis using doc by (simp add: list_all_iff)
qed




lemma map_entry_in_distinct:
  assumes "distinct (map fst xs)"
  shows "(k', c') \<in> set (AList.map_entry k f xs) \<longleftrightarrow>
         (k' \<noteq> k \<and> (k', c') \<in> set xs) \<or> (k' = k \<and> (\<exists>c. (k, c) \<in> set xs \<and> c' = f c))"
  using assms by (induction xs) (auto simp: image_iff)
































theorem deadline_months_in_range_witness:
  "list_all months_in_range (doc_countries (projr
     (compile_example
        (workbook_of [] [[(''Jurisdiction'', CStr ''DEU''), (''Month'', CInt 3), (''Day'', CInt 31)]] [] [])
        '''')))"
proof -
  let ?wb = "workbook_of [] [[(''Jurisdiction'', CStr ''DEU''), (''Month'', CInt 3), (''Day'', CInt 31)]] [] []"
  have "\<not> isl (compile_example ?wb '''')" by code_simp
  then have "compile_example ?wb '''' = Inr (projr (compile_example ?wb ''''))" by simp
  then have ok: "compile_rules True 2026 ''2026-11-03 12:00'' ?wb ''Rule Tables.xlsx'' ''''
               = Inr (projr (compile_example ?wb ''''))"
    by (simp add: compile_example_def)
  have cells: "\<forall>nm \<in> set month_sheets. \<forall>r \<in> set (sheet_rows ?wb nm). month_cell_ok (rget r ''Month'')"
    by code_simp
  from deadline_months_in_range [OF ok cells] show ?thesis .
qed


end
